theory Spec2Isabelle
  imports Main "HOL-Library.Sublist"
begin

section \<open>The URL shortener: create and redirect handlers\<close>

text \<open>
  A shallow embedding of \<^verbatim>\<open>src/lambda/create_short_url.py\<close> and
  \<^verbatim>\<open>src/lambda/redirect_url.py\<close>. The two handlers are pure functions of their
  inputs and of a \<open>world\<close>: the table of the key-value store, the secure random
  source, the clock, and the failures the store may answer with. Everything the Python
  reads from outside (random draws, clock readings, store errors) is a field of the
  world, so that a property "for every sequence of draws" is a property for every world.

  A Python \<open>str\<close> is a \<open>string\<close>; a character stands for the code point of the same
  number (below 256). An uncaught Python exception is the \<open>Inl\<close> branch of a result.
\<close>

subsection \<open>Python strings\<close>

text \<open>\<^verbatim>\<open>str.isspace\<close> on one character, for the code points a \<open>char\<close> can hold:
  U+0009..U+000D, U+001C..U+0020, U+0085 and U+00A0.\<close>

definition isspace :: "char \<Rightarrow> bool" where
  "isspace c =
     (let n = (of_char c :: nat)
      in (9 \<le> n \<and> n \<le> 13) \<or> (28 \<le> n \<and> n \<le> 32) \<or> n = 133 \<or> n = 160)"

text \<open>\<^verbatim>\<open>s.strip()\<close>: leading and trailing whitespace removed.\<close>

definition strip :: "string \<Rightarrow> string" where
  "strip s = rev (dropWhile isspace (rev (dropWhile isspace s)))"

text \<open>\<^verbatim>\<open>s.rstrip("/")\<close>: every trailing slash removed.\<close>

definition rstrip_slash :: "string \<Rightarrow> string" where
  "rstrip_slash s = rev (dropWhile (\<lambda>c. c = CHR ''/'') (rev s))"

text \<open>\<^verbatim>\<open>s.startswith(("http://", "https://"))\<close>.\<close>

definition startswith_http :: "string \<Rightarrow> bool" where
  "startswith_http s = (prefix ''http://'' s \<or> prefix ''https://'' s)"

subsection \<open>Decoded JSON and the exceptions of the handlers\<close>

text \<open>
  What \<^verbatim>\<open>json.loads\<close> returns: \<open>None\<close>, a \<open>bool\<close>, a number (kept as its
  literal), a \<open>str\<close>, a \<open>list\<close> or a \<open>dict\<close> (its items, each key once).
\<close>

datatype json =
    JNull
  | JBool bool
  | JNumber string
  | JString string
  | JArray "json list"
  | JObject "(string \<times> json) list"

text \<open>
  The exceptions a handler meets. \<open>JSONDecodeError\<close> is what \<^verbatim>\<open>json.loads\<close> raises on
  a text that is not JSON; it also raises \<open>RecursionError\<close> on a text nested too deep
  and \<open>ValueError\<close> on an integer literal with too many digits, and neither of these is
  a \<open>JSONDecodeError\<close>. The decoder itself is library code: the create handler takes it
  as the parameter \<open>json_loads\<close>, whose result is the decoded value (\<open>Inr\<close>) or the
  exception raised (\<open>Inl\<close>). \<open>AttributeError\<close> and \<open>KeyError\<close> are raised by the
  handler's own code.
\<close>

datatype py_error = AttributeError | KeyError | JSONDecodeError | RecursionError | ValueError

text \<open>\<^verbatim>\<open>body.get(key, default)\<close>: only a \<open>dict\<close> has the method.\<close>

fun py_get :: "json \<Rightarrow> string \<Rightarrow> json \<Rightarrow> py_error + json" where
  "py_get (JObject kv) k d = Inr (case map_of kv k of None \<Rightarrow> d | Some v \<Rightarrow> v)"
| "py_get _ k d = Inl AttributeError"

text \<open>\<^verbatim>\<open>value.strip()\<close>: only a \<open>str\<close> has the method.\<close>

fun py_strip :: "json \<Rightarrow> py_error + string" where
  "py_strip (JString s) = Inr (strip s)"
| "py_strip _ = Inl AttributeError"

subsection \<open>The key-value store, the random source and the clock\<close>

record item =
  short_code :: string
  long_url :: string
  created_at :: int
  expires_at :: int

text \<open>\<^verbatim>\<open>botocore.exceptions.ClientError\<close>: \<open>error_code\<close> is
  \<^verbatim>\<open>e.response["Error"]["Code"]\<close>, \<open>error_str\<close> is \<^verbatim>\<open>str(e)\<close>.\<close>

datatype client_error = ClientError (error_code: string) (error_str: string)

datatype store_call = PutItem item | GetItem string

text \<open>
  \<^item> \<open>table\<close>: the records of the store, by primary key \<open>short_code\<close>;
  \<^item> \<open>entropy\<close>, \<open>drawn\<close>: the raw values of the secure random source and how many
    were consumed;
  \<^item> \<open>clock\<close>, \<open>reads\<close>: what \<^verbatim>\<open>int(time.time())\<close> returns at each reading and
    how many readings were made;
  \<^item> \<open>faults\<close>: the error, if any, the store answers its n-th call with (a throttled
    request, an outage, a forced rejection);
  \<^item> \<open>calls\<close>: every call made to the store, oldest first.
\<close>

record world =
  table :: "string \<rightharpoonup> item"
  entropy :: "nat \<Rightarrow> nat"
  drawn :: nat
  clock :: "nat \<Rightarrow> int"
  reads :: nat
  faults :: "nat \<Rightarrow> client_error option"
  calls :: "store_call list"

definition conditional_check_failed :: client_error where
  "conditional_check_failed =
     ClientError ''ConditionalCheckFailedException''
       ''An error occurred (ConditionalCheckFailedException) when calling the PutItem operation: The conditional request failed''"

text \<open>\<^verbatim>\<open>table.put_item(Item=..., ConditionExpression="attribute_not_exists(short_code)")\<close>:
  the write happens only when no record has the key; otherwise the store raises the
  conditional-check failure. A fault of the store raises its error and writes nothing.\<close>

definition put_item :: "item \<Rightarrow> world \<Rightarrow> (client_error + unit) \<times> world" where
  "put_item it w =
     (let w' = w\<lparr>calls := calls w @ [PutItem it]\<rparr>
      in case faults w (length (calls w)) of
           Some e \<Rightarrow> (Inl e, w')
         | None \<Rightarrow>
             (case table w (short_code it) of
                Some _ \<Rightarrow> (Inl conditional_check_failed, w')
              | None \<Rightarrow> (Inr (), w'\<lparr>table := (table w)(short_code it \<mapsto> it)\<rparr>)))"

text \<open>\<^verbatim>\<open>table.get_item(Key={"short_code": key}).get("Item")\<close>.\<close>

definition get_item :: "string \<Rightarrow> world \<Rightarrow> (client_error + item option) \<times> world" where
  "get_item key w =
     (let w' = w\<lparr>calls := calls w @ [GetItem key]\<rparr>
      in case faults w (length (calls w)) of
           Some e \<Rightarrow> (Inl e, w')
         | None \<Rightarrow> (Inr (table w key), w'))"

text \<open>\<^verbatim>\<open>int(time.time())\<close>: one reading of the clock.\<close>

definition unix_time :: "world \<Rightarrow> int \<times> world" where
  "unix_time w = (clock w (reads w), w\<lparr>reads := reads w + 1\<rparr>)"

text \<open>\<^verbatim>\<open>secrets.choice(seq)\<close> is \<^verbatim>\<open>seq[randbelow(len(seq))]\<close>: the raw value
  of the random source, reduced below the length. Its only caller passes \<open>ALPHABET\<close>,
  which is not empty.\<close>

definition secrets_choice :: "'a list \<Rightarrow> world \<Rightarrow> 'a \<times> world" where
  "secrets_choice seq w =
     (seq ! (entropy w (drawn w) mod length seq), w\<lparr>drawn := drawn w + 1\<rparr>)"

subsection \<open>create\_short\_url.py\<close>

definition ascii_letters :: string where
  "ascii_letters = ''abcdefghijklmnopqrstuvwxyzABCDEFGHIJKLMNOPQRSTUVWXYZ''"

definition digits :: string where
  "digits = ''0123456789''"

definition ALPHABET :: string where
  "ALPHABET = ascii_letters @ digits"

definition CODE_LENGTH :: nat where
  "CODE_LENGTH = 8"

text \<open>The generator expression \<^verbatim>\<open>secrets.choice(ALPHABET) for _ in range(n)\<close>, joined.\<close>

fun choices :: "nat \<Rightarrow> world \<Rightarrow> string \<times> world" where
  "choices 0 w = ([], w)"
| "choices (Suc n) w =
     (let (c, w1) = secrets_choice ALPHABET w;
          (cs, w2) = choices n w1
      in (c # cs, w2))"

definition generate_short_code :: "world \<Rightarrow> string \<times> world" where
  "generate_short_code w = choices CODE_LENGTH w"

text \<open>The response of a handler: \<open>JsonDumps d\<close> is the text \<^verbatim>\<open>json.dumps(d)\<close>.\<close>

datatype payload = JsonDumps "(string \<times> string) list" | Text string

record http_response =
  statusCode :: int
  headers :: "(string \<times> string) list"
  body :: payload

text \<open>\<^verbatim>\<open>_response(status_code, body)\<close>, the same function in both files.\<close>

definition response :: "int \<Rightarrow> (string \<times> string) list \<Rightarrow> http_response" where
  "response status_code b =
     \<lparr>statusCode = status_code,
      headers = [(''Content-Type'', ''application/json''),
                 (''Access-Control-Allow-Origin'', ''*'')],
      body = JsonDumps b\<rparr>"

text \<open>The event of the API gateway: \<open>ev_body\<close> is \<^verbatim>\<open>event.get("body")\<close>,
  \<open>pathParameters\<close> is \<^verbatim>\<open>event.get("pathParameters")\<close>.\<close>

record event =
  ev_body :: "string option"
  pathParameters :: "(string \<rightharpoonup> string) option"

type_synonym result = "py_error + http_response"

text \<open>
  The collision loop \<^verbatim>\<open>for _ in range(5)\<close>, by the number of attempts left. One
  attempt draws a code, reads the clock twice (once for \<open>created_at\<close>, once for
  \<open>expires_at\<close>, as the dictionary display does), and calls the conditional write.
  \<open>BASE_URL\<close> is read from the environment after the write succeeded; a missing
  variable raises \<open>KeyError\<close>, which the handler does not catch.
\<close>

fun attempts :: "nat \<Rightarrow> (string \<rightharpoonup> string) \<Rightarrow> string \<Rightarrow> world \<Rightarrow> result \<times> world" where
  "attempts 0 environ url w =
     (Inr (response 500 [(''error'', ''Could not generate a unique short code. Try again.'')]), w)"
| "attempts (Suc n) environ url w =
     (let (code, w1) = generate_short_code w;
          (t1, w2) = unix_time w1;
          (t2, w3) = unix_time w2;
          (r, w4) = put_item
             \<lparr>short_code = code, long_url = url, created_at = t1,
              expires_at = t2 + 60 * 60 * 24 * 90\<rparr> w3
      in case r of
           Inr _ \<Rightarrow>
             (case environ ''BASE_URL'' of
                None \<Rightarrow> (Inl KeyError, w4)
              | Some b \<Rightarrow>
                  (Inr (response 201
                     [(''short_url'', rstrip_slash b @ ''/'' @ code),
                      (''short_code'', code),
                      (''long_url'', url),
                      (''expires_in'', ''90 days'')]), w4))
         | Inl e \<Rightarrow>
             if error_code e = ''ConditionalCheckFailedException''
             then attempts n environ url w4
             else (Inr (response 500
                     [(''error'', ''Database error''), (''detail'', error_str e)]), w4))"

text \<open>\<^verbatim>\<open>event.get("body") or "{}"\<close>: a missing or empty body reads as the empty object.\<close>

definition body_text :: "event \<Rightarrow> string" where
  "body_text ev = (case ev_body ev of None \<Rightarrow> ''{}'' | Some s \<Rightarrow> if s = [] then ''{}'' else s)"

text \<open>The handler catches \<open>JSONDecodeError\<close> and nothing else: any other exception of
  the decoder leaves the handler, as does the \<open>AttributeError\<close> of a body that is not an
  object or of a \<open>long_url\<close> that is not a string.\<close>

definition create_lambda_handler ::
  "(string \<Rightarrow> py_error + json) \<Rightarrow> (string \<rightharpoonup> string) \<Rightarrow> event \<Rightarrow> world \<Rightarrow> result \<times> world" where
  "create_lambda_handler json_loads environ ev w =
     (case json_loads (body_text ev) of
        Inl x \<Rightarrow>
          if x = JSONDecodeError then
            (Inr (response 400 [(''error'', ''Request body must be valid JSON'')]), w)
          else (Inl x, w)
      | Inr b \<Rightarrow>
          (case py_get b ''long_url'' (JString '''') of
             Inl x \<Rightarrow> (Inl x, w)
           | Inr v \<Rightarrow>
               (case py_strip v of
                  Inl x \<Rightarrow> (Inl x, w)
                | Inr url \<Rightarrow>
                    if url = [] then
                      (Inr (response 400 [(''error'', ''long_url is required'')]), w)
                    else if \<not> startswith_http url then
                      (Inr (response 400
                         [(''error'', ''long_url must start with http:// or https://'')]), w)
                    else attempts 5 environ url w)))"

subsection \<open>redirect\_url.py\<close>

definition redirect_lambda_handler :: "event \<Rightarrow> world \<Rightarrow> result \<times> world" where
  "redirect_lambda_handler ev w =
     (let path_params = (case pathParameters ev of None \<Rightarrow> Map.empty | Some p \<Rightarrow> p);
          code = strip (case path_params ''short_code'' of None \<Rightarrow> '''' | Some s \<Rightarrow> s)
      in if code = [] then
           (Inr (response 400 [(''error'', ''short_code is required'')]), w)
         else
           (case get_item code w of
              (Inl e, w1) \<Rightarrow>
                (Inr (response 500
                   [(''error'', ''Database error''), (''detail'', error_str e)]), w1)
            | (Inr None, w1) \<Rightarrow>
                (Inr (response 404
                   [(''error'', ''Short code '' @ [CHR 0x27] @ code @ [CHR 0x27] @ '' not found'')]), w1)
            | (Inr (Some it), w1) \<Rightarrow>
                (Inr \<lparr>statusCode = 301,
                      headers = [(''Location'', long_url it),
                                 (''Access-Control-Allow-Origin'', ''*'')],
                      body = Text ''''\<rparr>, w1)))"

subsection \<open>Derived notions used to state the properties\<close>

text \<open>The record an attempt starting in world \<open>w\<close> tries to write: the code it draws
  and the two readings of the clock it makes.\<close>

definition new_item :: "string \<Rightarrow> world \<Rightarrow> item" where
  "new_item url w =
     \<lparr>short_code = fst (generate_short_code w), long_url = url,
      created_at = clock w (reads w), expires_at = clock w (reads w + 1) + 60 * 60 * 24 * 90\<rparr>"

text \<open>The world after an attempt whose write was refused: eight draws and two clock
  readings consumed, one call made, the table as it was.\<close>

definition retry_world :: "string \<Rightarrow> world \<Rightarrow> world" where
  "retry_world url w =
     w\<lparr>drawn := drawn w + CODE_LENGTH, reads := reads w + 2,
       calls := calls w @ [PutItem (new_item url w)]\<rparr>"

text \<open>The code drawn by the i-th attempt (counted from 0) of a call that starts in \<open>w\<close>.\<close>

definition candidate :: "world \<Rightarrow> nat \<Rightarrow> string" where
  "candidate w i = fst (generate_short_code (w\<lparr>drawn := drawn w + CODE_LENGTH * i\<rparr>))"

text \<open>The i-th attempt's write is refused with the conditional-check failure: the store
  is forced to answer so, or the candidate code is already a key of the table.\<close>

definition rejected :: "world \<Rightarrow> nat \<Rightarrow> bool" where
  "rejected w i =
     (case faults w (length (calls w) + i) of
        Some e \<Rightarrow> error_code e = ''ConditionalCheckFailedException''
      | None \<Rightarrow> table w (candidate w i) \<noteq> None)"

text \<open>The character class \<^verbatim>\<open>[A-Za-z0-9]\<close>, by code point.\<close>

definition alnum :: "char \<Rightarrow> bool" where
  "alnum c =
     (let n = (of_char c :: nat)
      in (65 \<le> n \<and> n \<le> 90) \<or> (97 \<le> n \<and> n \<le> 122) \<or> (48 \<le> n \<and> n \<le> 57))"

subsection \<open>Example inputs\<close>

text \<open>
  A world with an empty table, a store that never fails, a clock standing at
  1700000000 and a random source whose n-th raw value is n: the first code drawn is
  \<open>abcdefgh\<close>, the second \<open>ijklmnop\<close>. The example decoder knows a few texts, as
  \<^verbatim>\<open>json.loads\<close> decodes them, fails on the deeply nested one, and rejects every
  other.
\<close>

definition example_world :: world where
  "example_world =
     \<lparr>table = Map.empty, entropy = (\<lambda>i. i), drawn = 0,
      clock = (\<lambda>n. 1700000000), reads = 0, faults = (\<lambda>n. None), calls = []\<rparr>"

definition example_environ :: "string \<rightharpoonup> string" where
  "example_environ = [''BASE_URL'' \<mapsto> ''https://api.example.com/prod/'']"

definition example_text :: string where
  \<open>example_text = ''{"long_url": "https://example.com/page"}''\<close>

definition leading_text :: string where
  \<open>leading_text = ''{"long_url": " https://example.com/page"}''\<close>

definition trailing_text :: string where
  \<open>trailing_text = ''{"long_url": "https://example.com/page "}''\<close>

definition ftp_text :: string where
  \<open>ftp_text = ''{"long_url": "ftp://x.com"}''\<close>

definition blank_text :: string where
  \<open>blank_text = ''{"long_url": "   "}''\<close>

definition number_text :: string where
  \<open>number_text = ''{"long_url": 123}''\<close>

text \<open>A body of 1000 opening brackets: not JSON, and nested deeper than the decoder
  follows.\<close>

definition deep_text :: string where
  "deep_text = replicate 1000 (CHR ''['')"

definition example_loads :: "string \<Rightarrow> py_error + json" where
  "example_loads s =
     (case map_of
             [(example_text, JObject [(''long_url'', JString ''https://example.com/page'')]),
              (leading_text, JObject [(''long_url'', JString '' https://example.com/page'')]),
              (trailing_text, JObject [(''long_url'', JString ''https://example.com/page '')]),
              (ftp_text, JObject [(''long_url'', JString ''ftp://x.com'')]),
              (blank_text, JObject [(''long_url'', JString ''   '')]),
              (number_text, JObject [(''long_url'', JNumber ''123'')]),
              (''{}'', JObject []),
              (''[]'', JArray [])] s of
        Some v \<Rightarrow> Inr v
      | None \<Rightarrow> if s = deep_text then Inl RecursionError else Inl JSONDecodeError)"

text \<open>The event of \<^verbatim>\<open>POST /shorten\<close> with a body, and of \<^verbatim>\<open>GET /{short_code}\<close>.\<close>

definition post :: "string \<Rightarrow> event" where
  "post s = \<lparr>ev_body = Some s, pathParameters = None\<rparr>"

definition get :: "string \<Rightarrow> event" where
  "get code = \<lparr>ev_body = None, pathParameters = Some [''short_code'' \<mapsto> code]\<rparr>"

definition example_event :: event where
  "example_event = post example_text"

text \<open>A record that is already stored under the first code the example source draws.\<close>

definition example_item :: item where
  "example_item =
     \<lparr>short_code = ''abcdefgh'', long_url = ''https://example.org/old'',
      created_at = 1600000000, expires_at = 1607776000\<rparr>"

text \<open>The example world with that record in the table: the first candidate of a create
  call collides, the second does not.\<close>

definition occupied_world :: world where
  "occupied_world = example_world\<lparr>table := [''abcdefgh'' \<mapsto> example_item]\<rparr>"




text \<open>A clock that passes a second boundary between its first two readings.\<close>

definition ticking_world :: world where
  "ticking_world = example_world\<lparr>clock := (\<lambda>n. if n = 0 then 1699999999 else 1700000000)\<rparr>"

section \<open>Properties\<close>

subsection \<open>The code generator\<close>

lemma choices_snd: "snd (choices n w) = w\<lparr>drawn := drawn w + n\<rparr>"
  by (induction n arbitrary: w) (simp_all add: secrets_choice_def case_prod_beta)

lemma choices_length: "length (fst (choices n w)) = n"
  by (induction n arbitrary: w) (simp_all add: secrets_choice_def case_prod_beta)

lemma ALPHABET_length: "length ALPHABET = 62"
  by (simp add: ALPHABET_def ascii_letters_def digits_def)

lemma choices_set: "set (fst (choices n w)) \<subseteq> set ALPHABET"
  by (induction n arbitrary: w) (simp_all add: secrets_choice_def ALPHABET_length case_prod_beta)

lemma choices_cong:
  "entropy w = entropy v \<Longrightarrow> drawn w = drawn v \<Longrightarrow> fst (choices n w) = fst (choices n v)"
proof (induction n arbitrary: w v)
  case 0
  then show ?case by simp
next
  case (Suc n)
  have "fst (choices n (w\<lparr>drawn := drawn w + 1\<rparr>)) = fst (choices n (v\<lparr>drawn := drawn v + 1\<rparr>))"
    by (rule Suc.IH) (simp_all add: Suc.prems)
  then show ?case
    by (simp add: secrets_choice_def case_prod_beta Suc.prems)
qed

lemma statusCode_response [simp]: "statusCode (response s b) = s"
  by (simp add: response_def)

lemma body_response [simp]: "body (response s b) = JsonDumps b"
  by (simp add: response_def)

lemma attempts_Suc:
  "attempts (Suc n) environ url w =
     (case faults w (length (calls w)) of
        Some e \<Rightarrow>
          if error_code e = ''ConditionalCheckFailedException''
          then attempts n environ url (retry_world url w)
          else (Inr (response 500 [(''error'', ''Database error''), (''detail'', error_str e)]),
                retry_world url w)
      | None \<Rightarrow>
          (case table w (fst (generate_short_code w)) of
             Some _ \<Rightarrow> attempts n environ url (retry_world url w)
           | None \<Rightarrow>
               (case environ ''BASE_URL'' of
                  None \<Rightarrow> Inl KeyError
                | Some b \<Rightarrow>
                    Inr (response 201
                      [(''short_url'', rstrip_slash b @ ''/'' @ fst (generate_short_code w)),
                       (''short_code'', fst (generate_short_code w)),
                       (''long_url'', url),
                       (''expires_in'', ''90 days'')]),
                (retry_world url w)
                  \<lparr>table := (table w)(fst (generate_short_code w) \<mapsto> new_item url w)\<rparr>)))"
  by (simp add: Let_def case_prod_beta put_item_def unix_time_def retry_world_def new_item_def
      generate_short_code_def choices_snd conditional_check_failed_def
      split: option.splits)

declare attempts.simps(2) [simp del]

lemma retry_world_simps [simp]:
  "table (retry_world url w) = table w"
  "entropy (retry_world url w) = entropy w"
  "drawn (retry_world url w) = drawn w + CODE_LENGTH"
  "clock (retry_world url w) = clock w"
  "reads (retry_world url w) = reads w + 2"
  "faults (retry_world url w) = faults w"
  "calls (retry_world url w) = calls w @ [PutItem (new_item url w)]"
  by (simp_all add: retry_world_def)

lemma candidate_0: "candidate w 0 = fst (generate_short_code w)"
  unfolding candidate_def generate_short_code_def by (rule choices_cong) simp_all

lemma candidate_retry: "candidate (retry_world url w) i = candidate w (Suc i)"
  unfolding candidate_def generate_short_code_def by (rule choices_cong) simp_all

lemma rejected_retry: "rejected (retry_world url w) i = rejected w (Suc i)"
  by (simp add: rejected_def candidate_retry split: option.splits)

lemma attempts_rejected:
  "rejected w 0 \<Longrightarrow> attempts (Suc n) environ url w = attempts n environ url (retry_world url w)"
  by (auto simp: attempts_Suc rejected_def candidate_0 split: option.splits)

lemma funpow_retry_simps [simp]:
  "table ((retry_world url ^^ k) w) = table w"
  "entropy ((retry_world url ^^ k) w) = entropy w"
  "drawn ((retry_world url ^^ k) w) = drawn w + CODE_LENGTH * k"
  "clock ((retry_world url ^^ k) w) = clock w"
  "reads ((retry_world url ^^ k) w) = reads w + 2 * k"
  "faults ((retry_world url ^^ k) w) = faults w"
  "length (calls ((retry_world url ^^ k) w)) = length (calls w) + k"
  by (induction k) simp_all

lemma candidate_funpow: "candidate ((retry_world url ^^ k) w) i = candidate w (k + i)"
  unfolding candidate_def generate_short_code_def
  by (rule choices_cong) (simp_all add: distrib_left)


lemma attempts_skip:
  "\<forall>i<k. rejected w i \<Longrightarrow>
     attempts (k + n) environ url w = attempts n environ url ((retry_world url ^^ k) w)"
proof (induction k arbitrary: w)
  case 0
  then show ?case by simp
next
  case (Suc k)
  have "rejected w 0" using Suc.prems by simp
  then have "attempts (Suc k + n) environ url w = attempts (k + n) environ url (retry_world url w)"
    by (simp add: attempts_rejected)
  also have "\<dots> = attempts n environ url ((retry_world url ^^ k) (retry_world url w))"
    by (rule Suc.IH) (use Suc.prems in \<open>simp add: rejected_retry\<close>)
  finally show ?case by (simp add: funpow_swap1)
qed

lemma new_item_funpow:
  "new_item url ((retry_world url ^^ k) w) =
     \<lparr>short_code = candidate w k, long_url = url,
      created_at = clock w (reads w + 2 * k),
      expires_at = clock w (reads w + 2 * k + 1) + 60 * 60 * 24 * 90\<rparr>"
proof -
  have "fst (generate_short_code ((retry_world url ^^ k) w)) = candidate w k"
    using candidate_funpow [where i = 0 and k = k and w = w and url = url] by (simp add: candidate_0)
  then show ?thesis by (simp add: new_item_def)
qed

lemma attempts_exhausted:
  assumes "\<forall>i<n. rejected w i"
  shows "attempts n environ url w =
     (Inr (response 500 [(''error'', ''Could not generate a unique short code. Try again.'')]),
      (retry_world url ^^ n) w)"
  using attempts_skip [OF assms, where n = 0 and environ = environ and url = url] by simp

lemma attempts_fault:
  assumes "\<forall>i<k. rejected w i"
    and "faults w (length (calls w) + k) = Some e"
    and "error_code e \<noteq> ''ConditionalCheckFailedException''"
  shows "attempts (k + Suc m) environ url w =
     (Inr (response 500 [(''error'', ''Database error''), (''detail'', error_str e)]),
      (retry_world url ^^ Suc k) w)"
proof -
  have "attempts (k + Suc m) environ url w = attempts (Suc m) environ url ((retry_world url ^^ k) w)"
    by (rule attempts_skip [OF assms(1)])
  also have "\<dots> = (Inr (response 500 [(''error'', ''Database error''), (''detail'', error_str e)]),
      retry_world url ((retry_world url ^^ k) w))"
    by (simp add: attempts_Suc assms(2,3))
  finally show ?thesis by simp
qed

lemma attempts_accepted:
  assumes "\<forall>i<k. rejected w i"
    and "faults w (length (calls w) + k) = None"
    and "table w (candidate w k) = None"
  shows "attempts (k + Suc m) environ url w =
     (case environ ''BASE_URL'' of
        None \<Rightarrow> Inl KeyError
      | Some b \<Rightarrow>
          Inr (response 201
            [(''short_url'', rstrip_slash b @ ''/'' @ candidate w k),
             (''short_code'', candidate w k),
             (''long_url'', url),
             (''expires_in'', ''90 days'')]),
      ((retry_world url ^^ Suc k) w)
        \<lparr>table := (table w)(candidate w k \<mapsto> new_item url ((retry_world url ^^ k) w))\<rparr>)"
proof -
  have c: "fst (generate_short_code ((retry_world url ^^ k) w)) = candidate w k"
    using candidate_funpow [where i = 0 and k = k and w = w and url = url] by (simp add: candidate_0)
  have "attempts (k + Suc m) environ url w = attempts (Suc m) environ url ((retry_world url ^^ k) w)"
    by (rule attempts_skip [OF assms(1)])
  also have "\<dots> = (case environ ''BASE_URL'' of
        None \<Rightarrow> Inl KeyError
      | Some b \<Rightarrow>
          Inr (response 201
            [(''short_url'', rstrip_slash b @ ''/'' @ candidate w k),
             (''short_code'', candidate w k),
             (''long_url'', url),
             (''expires_in'', ''90 days'')]),
      (retry_world url ((retry_world url ^^ k) w))
        \<lparr>table := (table w)(candidate w k \<mapsto> new_item url ((retry_world url ^^ k) w))\<rparr>)"
    by (simp add: attempts_Suc assms(2,3) c split: option.splits)
  finally show ?thesis by simp
qed

lemma first_not_rejected:
  "(\<forall>i<n. rejected w i) \<or> (\<exists>k<n. (\<forall>i<k. rejected w i) \<and> \<not> rejected w k)"
proof (induction n)
  case 0
  then show ?case by simp
next
  case (Suc n)
  then show ?case
  proof
    assume all: "\<forall>i<n. rejected w i"
    show ?thesis
    proof (cases "rejected w n")
      case True
      with all have "\<forall>i<Suc n. rejected w i" by (simp add: less_Suc_eq)
      then show ?thesis ..
    next
      case False
      with all have "\<exists>k<Suc n. (\<forall>i<k. rejected w i) \<and> \<not> rejected w k" by blast
      then show ?thesis ..
    qed
  next
    assume "\<exists>k<n. (\<forall>i<k. rejected w i) \<and> \<not> rejected w k"
    then have "\<exists>k<Suc n. (\<forall>i<k. rejected w i) \<and> \<not> rejected w k"
      using less_Suc_eq by blast
    then show ?thesis ..
  qed
qed

lemma attempts_201:
  assumes run: "attempts n environ url w = (Inr r, w')" and ok: "statusCode r = 201"
  shows "\<exists>k b. k < n \<and> (\<forall>i<k. rejected w i) \<and> faults w (length (calls w) + k) = None
           \<and> table w (candidate w k) = None \<and> environ ''BASE_URL'' = Some b
           \<and> r = response 201
                 [(''short_url'', rstrip_slash b @ ''/'' @ candidate w k),
                  (''short_code'', candidate w k),
                  (''long_url'', url),
                  (''expires_in'', ''90 days'')]
           \<and> w' = ((retry_world url ^^ Suc k) w)
                 \<lparr>table := (table w)(candidate w k \<mapsto> new_item url ((retry_world url ^^ k) w))\<rparr>"
proof -
  consider (all) "\<forall>i<n. rejected w i"
    | (some) k where "k < n" "\<forall>i<k. rejected w i" "\<not> rejected w k"
    using first_not_rejected [of n w] by blast
  then show ?thesis
  proof cases
    case all
    have "statusCode r = 500"
      using attempts_exhausted [OF all, where environ = environ and url = url] run by auto
    with ok show ?thesis by simp
  next
    case some
    define m where "m = n - Suc k"
    have n: "n = k + Suc m" using some(1) by (simp add: m_def)
    show ?thesis
    proof (cases "faults w (length (calls w) + k)")
      case (Some e)
      with some(3) have "error_code e \<noteq> ''ConditionalCheckFailedException''"
        by (simp add: rejected_def)
      then have "statusCode r = 500"
        using attempts_fault [OF some(2) Some, where m = m and environ = environ and url = url]
          run n by auto
      with ok show ?thesis by simp
    next
      case None
      with some(3) have absent: "table w (candidate w k) = None"
        by (simp add: rejected_def)
      note acc = attempts_accepted [OF some(2) None absent, where m = m and environ = environ and url = url]
      show ?thesis
      proof (cases "environ ''BASE_URL''")
        case None
        with acc run n show ?thesis by auto
      next
        case (Some b)
        with acc run n have "r = response 201
                 [(''short_url'', rstrip_slash b @ ''/'' @ candidate w k),
                  (''short_code'', candidate w k),
                  (''long_url'', url),
                  (''expires_in'', ''90 days'')]"
          and "w' = ((retry_world url ^^ Suc k) w)
                 \<lparr>table := (table w)(candidate w k \<mapsto> new_item url ((retry_world url ^^ k) w))\<rparr>"
          by auto
        with some(1,2) \<open>faults w (length (calls w) + k) = None\<close> absent Some
        show ?thesis by blast
      qed
    qed
  qed
qed

subsection \<open>The create handler\<close>

lemma create_accepts:
  assumes "json_loads (body_text ev) = Inr (JObject kv)"
    and "(case map_of kv ''long_url'' of None \<Rightarrow> JString '''' | Some v \<Rightarrow> v) = JString raw"
    and "strip raw \<noteq> []" and "startswith_http (strip raw)"
  shows "create_lambda_handler json_loads environ ev w = attempts 5 environ (strip raw) w"
  using assms by (simp add: create_lambda_handler_def)

lemma create_201:
  assumes run: "create_lambda_handler json_loads environ ev w = (Inr r, w')"
    and ok: "statusCode r = 201"
  shows "\<exists>kv raw. json_loads (body_text ev) = Inr (JObject kv)
           \<and> (case map_of kv ''long_url'' of None \<Rightarrow> JString '''' | Some v \<Rightarrow> v) = JString raw
           \<and> strip raw \<noteq> [] \<and> startswith_http (strip raw)
           \<and> attempts 5 environ (strip raw) w = (Inr r, w')"
proof (cases "json_loads (body_text ev)")
  case (Inl x)
  with run have "statusCode r = 400"
    by (auto simp: create_lambda_handler_def split: if_splits)
  with ok show ?thesis by simp
next
  case Some: (Inr b)
  show ?thesis
  proof (cases b)
    case (JObject kv)
    let ?v = "case map_of kv ''long_url'' of None \<Rightarrow> JString '''' | Some v \<Rightarrow> v"
    show ?thesis
    proof (cases ?v)
      case (JString raw)
      have "strip raw \<noteq> []"
      proof
        assume "strip raw = []"
        with run Some JObject JString have "statusCode r = 400"
          by (auto simp: create_lambda_handler_def)
        with ok show False by simp
      qed
      moreover have "startswith_http (strip raw)"
      proof (rule ccontr)
        assume "\<not> startswith_http (strip raw)"
        with run Some JObject JString \<open>strip raw \<noteq> []\<close> have "statusCode r = 400"
          by (auto simp: create_lambda_handler_def)
        with ok show False by simp
      qed
      moreover from this \<open>strip raw \<noteq> []\<close> run Some JObject JString
      have "attempts 5 environ (strip raw) w = (Inr r, w')"
        by (simp add: create_lambda_handler_def)
      ultimately show ?thesis using Some JObject JString by blast
    qed (use run Some JObject in \<open>simp_all add: create_lambda_handler_def\<close>)
  qed (use run Some in \<open>simp_all add: create_lambda_handler_def\<close>)
qed

lemma ALPHABET_alnum: "\<forall>c \<in> set ALPHABET. alnum c"
  by (simp add: ALPHABET_def ascii_letters_def digits_def alnum_def)

lemma ALPHABET_distinct: "distinct ALPHABET"
  by (simp add: ALPHABET_def ascii_letters_def digits_def)

lemma candidate_shape: "length (candidate w k) = CODE_LENGTH \<and> set (candidate w k) \<subseteq> set ALPHABET"
  by (simp add: candidate_def generate_short_code_def choices_length choices_set)

lemma attempts_outcome:
  "(\<forall>i<n. rejected w i) \<and>
     attempts n environ url w =
       (Inr (response 500 [(''error'', ''Could not generate a unique short code. Try again.'')]),
        (retry_world url ^^ n) w)
   \<or> (\<exists>k e. k < n \<and> (\<forall>i<k. rejected w i) \<and> faults w (length (calls w) + k) = Some e
         \<and> error_code e \<noteq> ''ConditionalCheckFailedException''
         \<and> attempts n environ url w =
             (Inr (response 500 [(''error'', ''Database error''), (''detail'', error_str e)]),
              (retry_world url ^^ Suc k) w))
   \<or> (\<exists>k. k < n \<and> (\<forall>i<k. rejected w i) \<and> faults w (length (calls w) + k) = None
         \<and> table w (candidate w k) = None
         \<and> attempts n environ url w =
             (case environ ''BASE_URL'' of
                None \<Rightarrow> Inl KeyError
              | Some b \<Rightarrow>
                  Inr (response 201
                    [(''short_url'', rstrip_slash b @ ''/'' @ candidate w k),
                     (''short_code'', candidate w k),
                     (''long_url'', url),
                     (''expires_in'', ''90 days'')]),
              ((retry_world url ^^ Suc k) w)
                \<lparr>table := (table w)(candidate w k \<mapsto> new_item url ((retry_world url ^^ k) w))\<rparr>))"
  (is "?A \<or> ?B \<or> ?C")
proof -
  consider (all) "\<forall>i<n. rejected w i"
    | (some) k where "k < n" "\<forall>i<k. rejected w i" "\<not> rejected w k"
    using first_not_rejected [of n w] by blast
  then show ?thesis
  proof cases
    case all
    then have ?A using attempts_exhausted [OF all] by simp
    then show ?thesis ..
  next
    case some
    define m where "m = n - Suc k"
    have n: "n = k + Suc m" using some(1) by (simp add: m_def)
    show ?thesis
    proof (cases "faults w (length (calls w) + k)")
      case (Some e)
      with some(3) have ne: "error_code e \<noteq> ''ConditionalCheckFailedException''"
        by (simp add: rejected_def)
      have "attempts n environ url w =
             (Inr (response 500 [(''error'', ''Database error''), (''detail'', error_str e)]),
              (retry_world url ^^ Suc k) w)"
        unfolding n by (rule attempts_fault [OF some(2) Some ne])
      with some(1,2) Some ne have ?B by blast
      then show ?thesis by blast
    next
      case None
      with some(3) have absent: "table w (candidate w k) = None"
        by (simp add: rejected_def)
      have "attempts n environ url w =
             (case environ ''BASE_URL'' of
                None \<Rightarrow> Inl KeyError
              | Some b \<Rightarrow>
                  Inr (response 201
                    [(''short_url'', rstrip_slash b @ ''/'' @ candidate w k),
                     (''short_code'', candidate w k),
                     (''long_url'', url),
                     (''expires_in'', ''90 days'')]),
              ((retry_world url ^^ Suc k) w)
                \<lparr>table := (table w)(candidate w k \<mapsto> new_item url ((retry_world url ^^ k) w))\<rparr>)"
        unfolding n by (rule attempts_accepted [OF some(2) None absent])
      with some(1,2) None absent have ?C by blast
      then show ?thesis by blast
    qed
  qed
qed

text \<open>What a run of the loop leaves behind, whatever its result: at most \<open>n\<close> calls
  to the store, all of them writes, and every record the table had.\<close>

lemma attempts_world:
  "\<exists>k T. k \<le> n \<and> snd (attempts n environ url w) = ((retry_world url ^^ k) w)\<lparr>table := T\<rparr>
      \<and> (\<forall>c v. table w c = Some v \<longrightarrow> T c = Some v)
      \<and> (\<forall>j. Suc j < k \<longrightarrow> rejected w j)"
proof -
  have same: "(retry_world url ^^ k) w = ((retry_world url ^^ k) w)\<lparr>table := table w\<rparr>" for k
  proof -
    have "(retry_world url ^^ k) w
        = ((retry_world url ^^ k) w)\<lparr>table := table ((retry_world url ^^ k) w)\<rparr>"
      by simp
    then show ?thesis by (simp only: funpow_retry_simps)
  qed
  from attempts_outcome [where n = n and w = w and environ = environ and url = url] show ?thesis
  proof (elim disjE exE conjE)
    assume a: "\<forall>i<n. rejected w i"
      and r: "attempts n environ url w =
       (Inr (response 500 [(''error'', ''Could not generate a unique short code. Try again.'')]),
        (retry_world url ^^ n) w)"
    have "snd (attempts n environ url w) = ((retry_world url ^^ n) w)\<lparr>table := table w\<rparr>"
      using r same [of n] by simp
    with a show ?thesis by (intro exI [of _ n] exI [of _ "table w"]) simp
  next
    fix k e
    assume k: "k < n" and a: "\<forall>i<k. rejected w i"
      and r: "attempts n environ url w =
             (Inr (response 500 [(''error'', ''Database error''), (''detail'', error_str e)]),
              (retry_world url ^^ Suc k) w)"
    have "snd (attempts n environ url w) = ((retry_world url ^^ Suc k) w)\<lparr>table := table w\<rparr>"
      using r same [of "Suc k"] by simp
    with k a show ?thesis by (intro exI [of _ "Suc k"] exI [of _ "table w"]) simp
  next
    fix k
    assume k: "k < n" and a: "\<forall>i<k. rejected w i"
      and absent: "table w (candidate w k) = None"
      and r: "attempts n environ url w =
             (case environ ''BASE_URL'' of
                None \<Rightarrow> Inl KeyError
              | Some b \<Rightarrow>
                  Inr (response 201
                    [(''short_url'', rstrip_slash b @ ''/'' @ candidate w k),
                     (''short_code'', candidate w k),
                     (''long_url'', url),
                     (''expires_in'', ''90 days'')]),
              ((retry_world url ^^ Suc k) w)
                \<lparr>table := (table w)(candidate w k \<mapsto> new_item url ((retry_world url ^^ k) w))\<rparr>)"
    let ?T = "(table w)(candidate w k \<mapsto> new_item url ((retry_world url ^^ k) w))"
    have "snd (attempts n environ url w) = ((retry_world url ^^ Suc k) w)\<lparr>table := ?T\<rparr>"
      using r by simp
    moreover have "\<forall>c v. table w c = Some v \<longrightarrow> ?T c = Some v"
      using absent by auto
    ultimately show ?thesis
      using k a by (intro exI [of _ "Suc k"] exI [of _ ?T]) simp
  qed
qed


lemma attempts_keeps_records:
  "table w c = Some v \<Longrightarrow> table (snd (attempts n environ url w)) c = Some v"
  using attempts_world [where n = n and environ = environ and url = url and w = w] by auto

lemma create_world:
  assumes "json_loads (body_text ev) = Inr (JObject kv)"
    and "map_of kv ''long_url'' = Some (JString raw)"
    and "strip raw \<noteq> []" and "startswith_http (strip raw)"
  shows "create_lambda_handler json_loads environ ev w = attempts 5 environ (strip raw) w"
  using assms by (simp add: create_lambda_handler_def)

lemma create_cases:
  "snd (create_lambda_handler json_loads environ ev w) = w
   \<or> (\<exists>url. create_lambda_handler json_loads environ ev w = attempts 5 environ url w)"
proof (cases "json_loads (body_text ev)")
  case (Inl x)
  then show ?thesis by (simp add: create_lambda_handler_def)
next
  case Some: (Inr b)
  show ?thesis
  proof (cases "py_get b ''long_url'' (JString '''')")
    case (Inl x)
    with Some show ?thesis by (simp add: create_lambda_handler_def)
  next
    case (Inr v)
    show ?thesis
    proof (cases "py_strip v")
      case (Inl x)
      with Some Inr show ?thesis by (simp add: create_lambda_handler_def)
    next
      case url: (Inr url)
      with Some Inr show ?thesis by (auto simp: create_lambda_handler_def)
    qed
  qed
qed

lemma create_keeps_records:
  assumes "table w c = Some v"
  shows "table (snd (create_lambda_handler json_loads environ ev w)) c = Some v"
  using create_cases [where json_loads = json_loads and environ = environ and ev = ev and w = w]
    assms attempts_keeps_records [where w = w and c = c and v = v and n = 5 and environ = environ]
  by auto


lemma strip_Nil [simp]: "strip [] = []"
  by (simp add: strip_def)

lemma create_success:
  assumes run: "fst (create_lambda_handler json_loads environ ev w) = Inr r"
    and ok: "statusCode r = 201"
  shows "\<exists>kv raw k b.
           json_loads (body_text ev) = Inr (JObject kv)
           \<and> map_of kv ''long_url'' = Some (JString raw)
           \<and> strip raw \<noteq> [] \<and> startswith_http (strip raw)
           \<and> k < 5 \<and> (\<forall>i<k. rejected w i) \<and> faults w (length (calls w) + k) = None
           \<and> table w (candidate w k) = None \<and> environ ''BASE_URL'' = Some b
           \<and> r = response 201
                 [(''short_url'', rstrip_slash b @ ''/'' @ candidate w k),
                  (''short_code'', candidate w k),
                  (''long_url'', strip raw),
                  (''expires_in'', ''90 days'')]
           \<and> snd (create_lambda_handler json_loads environ ev w) =
               ((retry_world (strip raw) ^^ Suc k) w)
                 \<lparr>table := (table w)(candidate w k \<mapsto>
                    \<lparr>short_code = candidate w k, long_url = strip raw,
                     created_at = clock w (reads w + 2 * k),
                     expires_at = clock w (reads w + 2 * k + 1) + 60 * 60 * 24 * 90\<rparr>)\<rparr>"
proof -
  define w' where "w' = snd (create_lambda_handler json_loads environ ev w)"
  have pair: "create_lambda_handler json_loads environ ev w = (Inr r, w')"
    using run by (simp add: w'_def prod_eq_iff)
  from create_201 [OF pair ok] obtain kv raw
    where req: "json_loads (body_text ev) = Inr (JObject kv)"
      and field: "(case map_of kv ''long_url'' of None \<Rightarrow> JString '''' | Some v \<Rightarrow> v) = JString raw"
      and nonempty: "strip raw \<noteq> []" and http: "startswith_http (strip raw)"
      and loop: "attempts 5 environ (strip raw) w = (Inr r, w')" by blast
  have present: "map_of kv ''long_url'' = Some (JString raw)"
  proof (cases "map_of kv ''long_url''")
    case None
    with field have "raw = []" by simp
    with nonempty show ?thesis by simp
  next
    case (Some v)
    with field show ?thesis by simp
  qed
  from attempts_201 [OF loop ok] obtain k b
    where k: "k < 5" "\<forall>i<k. rejected w i" "faults w (length (calls w) + k) = None"
      "table w (candidate w k) = None" "environ ''BASE_URL'' = Some b"
      and r: "r = response 201
                 [(''short_url'', rstrip_slash b @ ''/'' @ candidate w k),
                  (''short_code'', candidate w k),
                  (''long_url'', strip raw),
                  (''expires_in'', ''90 days'')]"
      and w'': "w' = ((retry_world (strip raw) ^^ Suc k) w)
                 \<lparr>table := (table w)(candidate w k \<mapsto>
                    new_item (strip raw) ((retry_world (strip raw) ^^ k) w))\<rparr>"
    by blast
  have "snd (create_lambda_handler json_loads environ ev w) =
               ((retry_world (strip raw) ^^ Suc k) w)
                 \<lparr>table := (table w)(candidate w k \<mapsto>
                    \<lparr>short_code = candidate w k, long_url = strip raw,
                     created_at = clock w (reads w + 2 * k),
                     expires_at = clock w (reads w + 2 * k + 1) + 60 * 60 * 24 * 90\<rparr>)\<rparr>"
    using w'' unfolding w'_def new_item_funpow by simp
  with req present nonempty http k r show ?thesis by blast
qed

subsection \<open>Stripping whitespace\<close>

lemma dropWhile_all: "(\<forall>c \<in> set (dropWhile P s). P c) \<longleftrightarrow> (\<forall>c \<in> set s. P c)"
proof (cases "dropWhile P s = []")
  case True
  then have "\<forall>c \<in> set s. P c" by (simp only: dropWhile_eq_Nil_conv)
  moreover have "\<forall>c \<in> set (dropWhile P s). P c" by (simp only: True) simp
  ultimately show ?thesis by blast
next
  case False
  then have "\<not> P (hd (dropWhile P s))" by (rule hd_dropWhile)
  moreover have "hd (dropWhile P s) \<in> set (dropWhile P s)" using False by simp
  moreover have "set (dropWhile P s) \<subseteq> set s" by (rule set_dropWhileD [THEN subsetI])
  ultimately show ?thesis by blast
qed

lemma strip_eq_Nil: "strip s = [] \<longleftrightarrow> (\<forall>c \<in> set s. isspace c)"
  by (simp add: strip_def dropWhile_eq_Nil_conv dropWhile_all)

lemma strip_split:
  "dropWhile isspace s = strip s @ rev (takeWhile isspace (rev (dropWhile isspace s)))"
proof -
  let ?s1 = "dropWhile isspace s"
  have "rev (rev ?s1) = rev (takeWhile isspace (rev ?s1) @ dropWhile isspace (rev ?s1))"
    by (simp only: takeWhile_dropWhile_id)
  then show ?thesis
    by (simp only: rev_append rev_rev_ident strip_def)
qed

lemma strip_decomp:
  "\<exists>pre post. s = pre @ strip s @ post \<and> (\<forall>c \<in> set pre. isspace c) \<and> (\<forall>c \<in> set post. isspace c)"
proof -
  let ?s1 = "dropWhile isspace s"
  let ?post = "rev (takeWhile isspace (rev ?s1))"
  have "s = takeWhile isspace s @ ?s1" by simp
  also have "?s1 = strip s @ ?post" by (rule strip_split)
  finally have "s = takeWhile isspace s @ strip s @ ?post" .
  moreover have "\<forall>c \<in> set (takeWhile isspace s). isspace c"
    using set_takeWhileD by fastforce
  moreover have "\<forall>c \<in> set ?post. isspace c"
  proof
    fix c
    assume "c \<in> set ?post"
    then have "c \<in> set (takeWhile isspace (rev ?s1))" by simp
    then show "isspace c" by (rule set_takeWhileD [THEN conjunct2])
  qed
  ultimately show ?thesis by blast
qed

lemma strip_ends:
  assumes "strip s \<noteq> []"
  shows "\<not> isspace (hd (strip s)) \<and> \<not> isspace (last (strip s))"
proof -
  let ?s1 = "dropWhile isspace s"
  let ?t = "dropWhile isspace (rev ?s1)"
  have t: "?t \<noteq> []" using assms by (simp add: strip_def)
  have s1: "?s1 \<noteq> []"
  proof
    assume "?s1 = []"
    then have "?t = []" by (simp only: rev.simps dropWhile.simps)
    with t show False by (rule notE)
  qed
  have "last (strip s) = hd ?t"
    using t by (simp add: strip_def last_rev)
  moreover have "\<not> isspace (hd ?t)" using t by (rule hd_dropWhile)
  ultimately have last: "\<not> isspace (last (strip s))" by simp
  have "hd ?s1 = hd (strip s @ rev (takeWhile isspace (rev ?s1)))"
    using strip_split [of s] by simp
  then have "hd ?s1 = hd (strip s)" using assms by simp
  moreover have "\<not> isspace (hd ?s1)" using s1 by (rule hd_dropWhile)
  ultimately show ?thesis using last by simp
qed

lemma strip_id:
  assumes "s \<noteq> []" and "\<not> isspace (hd s)" and "\<not> isspace (last s)"
  shows "strip s = s"
proof -
  from assms(1) obtain x xs where s: "s = x # xs" by (cases s) auto
  with assms(2) have d: "dropWhile isspace s = s" by simp
  have r: "rev s = last s # rev (butlast s)"
    using assms(1) by (metis append_butlast_last_id rev.simps(2) rev_swap rev_rev_ident)
  have "dropWhile isspace (last s # rev (butlast s)) = last s # rev (butlast s)"
    using assms(3) by simp
  then have "dropWhile isspace (rev s) = rev s" by (simp only: r)
  then show ?thesis by (simp add: strip_def d)
qed

subsection \<open>Accepted requests, and the example runs\<close>

lemma candidate_table [simp]: "candidate (w\<lparr>table := T\<rparr>) i = candidate w i"
  unfolding candidate_def generate_short_code_def by (rule choices_cong) simp_all

lemma rejected_table:
  "rejected (w\<lparr>table := T\<rparr>) i =
     (case faults w (length (calls w) + i) of
        Some e \<Rightarrow> error_code e = ''ConditionalCheckFailedException''
      | None \<Rightarrow> T (candidate w i) \<noteq> None)"
  by (simp add: rejected_def split: option.splits)

lemma create_accepted:
  assumes "json_loads (body_text ev) = Inr (JObject kv)"
    and "map_of kv ''long_url'' = Some (JString raw)"
    and "strip raw \<noteq> []" and "startswith_http (strip raw)"
    and k: "k < 5" and rej: "\<forall>i<k. rejected w i"
    and nofault: "faults w (length (calls w) + k) = None"
    and free: "table w (candidate w k) = None"
    and base: "environ ''BASE_URL'' = Some b"
  shows "create_lambda_handler json_loads environ ev w =
     (Inr (response 201
        [(''short_url'', rstrip_slash b @ ''/'' @ candidate w k),
         (''short_code'', candidate w k),
         (''long_url'', strip raw),
         (''expires_in'', ''90 days'')]),
      ((retry_world (strip raw) ^^ Suc k) w)
        \<lparr>table := (table w)(candidate w k \<mapsto>
           \<lparr>short_code = candidate w k, long_url = strip raw,
            created_at = clock w (reads w + 2 * k),
            expires_at = clock w (reads w + 2 * k + 1) + 60 * 60 * 24 * 90\<rparr>)\<rparr>)"
proof -
  have run: "create_lambda_handler json_loads environ ev w = attempts 5 environ (strip raw) w"
    using assms(1-4) by (simp add: create_lambda_handler_def)
  define m where "m = 5 - Suc k"
  have five: "5 = k + Suc m" using k by (simp add: m_def)
  have "attempts 5 environ (strip raw) w = attempts (k + Suc m) environ (strip raw) w"
    using five by simp
  then show ?thesis
    unfolding run
    using attempts_accepted [OF rej nofault free, where m = m and environ = environ
        and url = "strip raw"] base
    by (simp add: new_item_funpow)
qed

lemma example_candidates:
  "candidate example_world 0 = ''abcdefgh''"
  "candidate example_world (Suc 0) = ''ijklmnop''"
  "candidate example_world (Suc (Suc 0)) = ''qrstuvwx''"
  by code_simp+

lemma example_world_simps [simp]:
  "table example_world = Map.empty" "faults example_world n = None"
  "calls example_world = []" "clock example_world n = 1700000000"
  by (simp_all add: example_world_def)

lemma occupied_world_simps [simp]:
  "table occupied_world = [''abcdefgh'' \<mapsto> example_item]" "faults occupied_world n = None"
  "calls occupied_world = []" "clock occupied_world n = 1700000000"
  "candidate occupied_world i = candidate example_world i"
  by (simp_all add: occupied_world_def)

lemma example_base: "example_environ ''BASE_URL'' = Some ''https://api.example.com/prod/''"
  by (simp add: example_environ_def)

lemma example_rstrip: "rstrip_slash ''https://api.example.com/prod/'' = ''https://api.example.com/prod''"
  by (simp add: rstrip_slash_def)

lemma example_request:
  "example_loads (body_text example_event) =
     Inr (JObject [(''long_url'', JString ''https://example.com/page'')])"
  "map_of [(''long_url'', JString ''https://example.com/page'')] ''long_url'' =
     Some (JString ''https://example.com/page'')"
  "strip ''https://example.com/page'' = ''https://example.com/page''"
  "startswith_http ''https://example.com/page''"
  by code_simp+

lemma example_create:
  "create_lambda_handler example_loads example_environ example_event example_world =
     (Inr (response 201
        [(''short_url'', ''https://api.example.com/prod/abcdefgh''),
         (''short_code'', ''abcdefgh''),
         (''long_url'', ''https://example.com/page''),
         (''expires_in'', ''90 days'')]),
      ((retry_world ''https://example.com/page'' ^^ Suc 0) example_world)
        \<lparr>table := (table example_world)(''abcdefgh'' \<mapsto>
           \<lparr>short_code = ''abcdefgh'', long_url = ''https://example.com/page'',
            created_at = 1700000000, expires_at = 1707776000\<rparr>)\<rparr>)"
proof -
  have "\<forall>i<0. rejected example_world i" by simp
  moreover have "faults example_world (length (calls example_world) + 0) = None"
    by simp
  moreover have "table example_world (candidate example_world 0) = None"
    by simp
  ultimately show ?thesis
    using create_accepted [where json_loads = example_loads and ev = example_event
        and kv = "[(''long_url'', JString ''https://example.com/page'')]"
        and raw = "''https://example.com/page''" and environ = example_environ
        and w = example_world and k = 0 and b = "''https://api.example.com/prod/''"]
      example_request example_base
    by (simp add: example_candidates example_rstrip)
qed

lemma occupied_rejected: "rejected occupied_world 0"
  by (simp add: rejected_def example_candidates)

lemma occupied_create:
  "create_lambda_handler example_loads example_environ example_event occupied_world =
     (Inr (response 201
        [(''short_url'', ''https://api.example.com/prod/ijklmnop''),
         (''short_code'', ''ijklmnop''),
         (''long_url'', ''https://example.com/page''),
         (''expires_in'', ''90 days'')]),
      ((retry_world ''https://example.com/page'' ^^ Suc (Suc 0)) occupied_world)
        \<lparr>table := (table occupied_world)(''ijklmnop'' \<mapsto>
           \<lparr>short_code = ''ijklmnop'', long_url = ''https://example.com/page'',
            created_at = 1700000000, expires_at = 1707776000\<rparr>)\<rparr>)"
proof -
  have "\<forall>i<Suc 0. rejected occupied_world i" by (simp add: occupied_rejected)
  moreover have "faults occupied_world (length (calls occupied_world) + Suc 0) = None"
    by simp
  moreover have "table occupied_world (candidate occupied_world (Suc 0)) = None"
    by (simp add: example_candidates)
  ultimately show ?thesis
    using create_accepted [where json_loads = example_loads and ev = example_event
        and kv = "[(''long_url'', JString ''https://example.com/page'')]"
        and raw = "''https://example.com/page''" and environ = example_environ
        and w = occupied_world and k = "Suc 0" and b = "''https://api.example.com/prod/''"]
      example_request example_base
    by (simp add: example_candidates example_rstrip)
qed

lemma occupied_second_create:
  "fst (create_lambda_handler example_loads example_environ example_event
     (snd (create_lambda_handler example_loads example_environ example_event occupied_world))) =
     Inr (response 201
       [(''short_url'', ''https://api.example.com/prod/qrstuvwx''),
        (''short_code'', ''qrstuvwx''),
        (''long_url'', ''https://example.com/page''),
        (''expires_in'', ''90 days'')])"
proof -
  let ?w1 = "((retry_world ''https://example.com/page'' ^^ Suc (Suc 0)) occupied_world)
        \<lparr>table := (table occupied_world)(''ijklmnop'' \<mapsto>
           \<lparr>short_code = ''ijklmnop'', long_url = ''https://example.com/page'',
            created_at = 1700000000, expires_at = 1707776000\<rparr>)\<rparr>"
  have c: "candidate ?w1 0 = ''qrstuvwx''"
    by (simp add: candidate_retry example_candidates)
  have "\<forall>i<0. rejected ?w1 i" by simp
  moreover have "faults ?w1 (length (calls ?w1) + 0) = None" by simp
  moreover have "table ?w1 (candidate ?w1 0) = None"
    unfolding c by simp
  ultimately have "create_lambda_handler example_loads example_environ example_event ?w1 =
     (Inr (response 201
        [(''short_url'', rstrip_slash ''https://api.example.com/prod/'' @ ''/'' @ candidate ?w1 0),
         (''short_code'', candidate ?w1 0),
         (''long_url'', strip ''https://example.com/page''),
         (''expires_in'', ''90 days'')]),
      ((retry_world (strip ''https://example.com/page'') ^^ Suc 0) ?w1)
        \<lparr>table := (table ?w1)(candidate ?w1 0 \<mapsto>
           \<lparr>short_code = candidate ?w1 0, long_url = strip ''https://example.com/page'',
            created_at = clock ?w1 (reads ?w1 + 2 * 0),
            expires_at = clock ?w1 (reads ?w1 + 2 * 0 + 1) + 60 * 60 * 24 * 90\<rparr>)\<rparr>)"
    using example_request example_base
    by (intro create_accepted [where kv = "[(''long_url'', JString ''https://example.com/page'')]"])
      simp_all
  then show ?thesis
    unfolding occupied_create snd_conv c by (simp add: example_rstrip example_request)
qed

subsection \<open>The redirect handler\<close>

lemma redirect_blank:
  assumes "strip (case (case pathParameters ev of None \<Rightarrow> Map.empty | Some p \<Rightarrow> p) ''short_code'' of
                    None \<Rightarrow> '''' | Some s \<Rightarrow> s) = []"
  shows "redirect_lambda_handler ev w =
           (Inr (response 400 [(''error'', ''short_code is required'')]), w)"
  using assms by (simp add: redirect_lambda_handler_def Let_def)

lemma redirect_lookup:
  assumes "pathParameters ev = Some p" and "p ''short_code'' = Some s" and "strip s \<noteq> []"
    and "faults w (length (calls w)) = None"
  shows "redirect_lambda_handler ev w =
     (case table w (strip s) of
        None \<Rightarrow>
          Inr (response 404
            [(''error'', ''Short code '' @ [CHR 0x27] @ strip s @ [CHR 0x27] @ '' not found'')])
      | Some it \<Rightarrow>
          Inr \<lparr>statusCode = 301,
                headers = [(''Location'', long_url it), (''Access-Control-Allow-Origin'', ''*'')],
                body = Text ''''\<rparr>,
      w\<lparr>calls := calls w @ [GetItem (strip s)]\<rparr>)"
  using assms by (simp add: redirect_lambda_handler_def get_item_def Let_def split: option.splits)

lemma redirect_fault:
  assumes "pathParameters ev = Some p" and "p ''short_code'' = Some s" and "strip s \<noteq> []"
    and "faults w (length (calls w)) = Some e"
  shows "redirect_lambda_handler ev w =
     (Inr (response 500 [(''error'', ''Database error''), (''detail'', error_str e)]),
      w\<lparr>calls := calls w @ [GetItem (strip s)]\<rparr>)"
  using assms by (simp add: redirect_lambda_handler_def get_item_def Let_def)

lemma ALPHABET_not_space: "\<forall>c \<in> set ALPHABET. \<not> isspace c"
  by (simp add: ALPHABET_def ascii_letters_def digits_def isspace_def)

lemma candidate_strip: "strip (candidate w k) = candidate w k"
proof (rule strip_id)
  have len: "length (candidate w k) = 8" and sub: "set (candidate w k) \<subseteq> set ALPHABET"
    using candidate_shape [of w k] by (simp_all add: CODE_LENGTH_def)
  from len show ne: "candidate w k \<noteq> []" by auto
  from ne have "hd (candidate w k) \<in> set (candidate w k)" "last (candidate w k) \<in> set (candidate w k)"
    by simp_all
  with sub ALPHABET_not_space
  show "\<not> isspace (hd (candidate w k))" "\<not> isspace (last (candidate w k))"
    by blast+
qed

subsection \<open>Claims about the shape of a short code\<close>

text \<open>
  Claim C5. Whatever the random source yields, \<open>generate_short_code\<close> returns
  exactly 8 characters, each an element of \<open>ALPHABET\<close>; the alphabet has 62 distinct
  characters, all of them letters or digits. Hence the \<open>short_code\<close> of every 201
  response of the create handler has exactly 8 characters of the alphabet.
\<close>

theorem short_code_shape:
  "length (fst (generate_short_code w)) = 8
   \<and> set (fst (generate_short_code w)) \<subseteq> set ALPHABET
   \<and> length ALPHABET = 62 \<and> distinct ALPHABET \<and> (\<forall>c \<in> set ALPHABET. alnum c)
   \<and> (\<forall>json_loads environ ev r.
         fst (create_lambda_handler json_loads environ ev w) = Inr r \<and> statusCode r = 201 \<longrightarrow>
         (\<exists>code u l.
            body r = JsonDumps [(''short_url'', u), (''short_code'', code),
                                (''long_url'', l), (''expires_in'', ''90 days'')]
            \<and> length code = 8 \<and> set code \<subseteq> set ALPHABET \<and> (\<forall>c \<in> set code. alnum c)))"
proof -
  have gen: "length (fst (generate_short_code w)) = 8"
    "set (fst (generate_short_code w)) \<subseteq> set ALPHABET"
    by (simp_all add: generate_short_code_def choices_length choices_set CODE_LENGTH_def)
  have created: "\<exists>code u l.
            body r = JsonDumps [(''short_url'', u), (''short_code'', code),
                                (''long_url'', l), (''expires_in'', ''90 days'')]
            \<and> length code = 8 \<and> set code \<subseteq> set ALPHABET \<and> (\<forall>c \<in> set code. alnum c)"
    if run: "fst (create_lambda_handler json_loads environ ev w) = Inr r" and ok: "statusCode r = 201"
    for json_loads environ ev r
  proof -
    define w' where "w' = snd (create_lambda_handler json_loads environ ev w)"
    have "create_lambda_handler json_loads environ ev w = (Inr r, w')"
      using run by (simp add: w'_def prod_eq_iff)
    from create_201 [OF this ok] obtain raw
      where "attempts 5 environ (strip raw) w = (Inr r, w')" by blast
    from attempts_201 [OF this ok] obtain k b
      where r: "r = response 201
                 [(''short_url'', rstrip_slash b @ ''/'' @ candidate w k),
                  (''short_code'', candidate w k),
                  (''long_url'', strip raw),
                  (''expires_in'', ''90 days'')]" by blast
    have shape: "length (candidate w k) = 8" "set (candidate w k) \<subseteq> set ALPHABET"
      using candidate_shape [of w k] by (simp_all add: CODE_LENGTH_def)
    then have "\<forall>c \<in> set (candidate w k). alnum c"
      using ALPHABET_alnum by blast
    with r shape show ?thesis by simp
  qed
  show ?thesis
    using gen ALPHABET_length ALPHABET_distinct ALPHABET_alnum created by blast
qed

theorem short_code_shape_witness:
  "fst (create_lambda_handler example_loads example_environ example_event example_world) =
     Inr (response 201
       [(''short_url'', ''https://api.example.com/prod/abcdefgh''),
        (''short_code'', ''abcdefgh''),
        (''long_url'', ''https://example.com/page''),
        (''expires_in'', ''90 days'')])
   \<and> fst (generate_short_code example_world) = ''abcdefgh''
   \<and> length (fst (generate_short_code example_world)) = 8
   \<and> set (fst (generate_short_code example_world)) \<subseteq> set ALPHABET
   \<and> (\<exists>code u l.
         body (response 201
           [(''short_url'', ''https://api.example.com/prod/abcdefgh''),
            (''short_code'', ''abcdefgh''),
            (''long_url'', ''https://example.com/page''),
            (''expires_in'', ''90 days'')]) =
           JsonDumps [(''short_url'', u), (''short_code'', code),
                      (''long_url'', l), (''expires_in'', ''90 days'')]
         \<and> length code = 8 \<and> set code \<subseteq> set ALPHABET \<and> (\<forall>c \<in> set code. alnum c))"
proof -
  let ?r = "response 201
       [(''short_url'', ''https://api.example.com/prod/abcdefgh''),
        (''short_code'', ''abcdefgh''),
        (''long_url'', ''https://example.com/page''),
        (''expires_in'', ''90 days'')]"
  have g: "fst (generate_short_code example_world) = ''abcdefgh''"
    using example_candidates(1) by (simp add: candidate_0)
  have h: "fst (create_lambda_handler example_loads example_environ example_event example_world) = Inr ?r
           \<and> statusCode ?r = 201"
    using example_create by simp
  note t = short_code_shape [of example_world]
  from t have "length (fst (generate_short_code example_world)) = 8"
    and "set (fst (generate_short_code example_world)) \<subseteq> set ALPHABET" by blast+
  moreover from t h have "\<exists>code u l.
         body ?r = JsonDumps [(''short_url'', u), (''short_code'', code),
                      (''long_url'', l), (''expires_in'', ''90 days'')]
         \<and> length code = 8 \<and> set code \<subseteq> set ALPHABET \<and> (\<forall>c \<in> set code. alnum c)"
    by blast
  ultimately show ?thesis using g h by blast
qed

subsection \<open>Claims about the collision loop\<close>





subsection \<open>Claims about store errors\<close>




subsection \<open>Claims about uniqueness\<close>

text \<open>
  Claim C1. A call of the create handler never changes a record the table already has.
  When it returns 201, the returned \<open>short_code\<close> is the first of its candidates whose
  write was not refused; that code was not a key of the table before the call, and the
  table after the call is the old one with one record added under that code. So when a
  second create call, run on the world the first one left, also returns 201, the two
  codes differ and both records are stored. And the handler does retry: if the first k
  candidates (k < 5) are refused with the conditional-check failure, and the next one is
  absent from the table and its write does not fail, a valid request returns 201 with
  that candidate.
\<close>

theorem create_inserts_absent_code:
  "(\<forall>c v. table w c = Some v \<longrightarrow>
      table (snd (create_lambda_handler json_loads environ ev w)) c = Some v)
   \<and> (\<forall>r. fst (create_lambda_handler json_loads environ ev w) = Inr r \<and> statusCode r = 201 \<longrightarrow>
        (\<exists>k it u. k < 5 \<and> (\<forall>i<k. rejected w i)
           \<and> body r = JsonDumps [(''short_url'', u), (''short_code'', candidate w k),
                                  (''long_url'', long_url it), (''expires_in'', ''90 days'')]
           \<and> short_code it = candidate w k
           \<and> table w (candidate w k) = None
           \<and> table (snd (create_lambda_handler json_loads environ ev w)) =
               (table w)(candidate w k \<mapsto> it)))
   \<and> (\<forall>json_loads2 environ2 ev2 r r2.
         fst (create_lambda_handler json_loads environ ev w) = Inr r \<and> statusCode r = 201
         \<and> fst (create_lambda_handler json_loads2 environ2 ev2
                  (snd (create_lambda_handler json_loads environ ev w))) = Inr r2
         \<and> statusCode r2 = 201 \<longrightarrow>
         (\<exists>code code2 it it2 u u2.
            body r = JsonDumps [(''short_url'', u), (''short_code'', code),
                                (''long_url'', long_url it), (''expires_in'', ''90 days'')]
            \<and> body r2 = JsonDumps [(''short_url'', u2), (''short_code'', code2),
                                   (''long_url'', long_url it2), (''expires_in'', ''90 days'')]
            \<and> code \<noteq> code2
            \<and> table (snd (create_lambda_handler json_loads2 environ2 ev2
                  (snd (create_lambda_handler json_loads environ ev w)))) code = Some it
            \<and> table (snd (create_lambda_handler json_loads2 environ2 ev2
                  (snd (create_lambda_handler json_loads environ ev w)))) code2 = Some it2))
   \<and> (\<forall>kv raw k b.
         json_loads (body_text ev) = Inr (JObject kv)
         \<and> map_of kv ''long_url'' = Some (JString raw)
         \<and> strip raw \<noteq> [] \<and> startswith_http (strip raw)
         \<and> k < 5 \<and> (\<forall>i<k. rejected w i) \<and> faults w (length (calls w) + k) = None
         \<and> table w (candidate w k) = None \<and> environ ''BASE_URL'' = Some b \<longrightarrow>
         fst (create_lambda_handler json_loads environ ev w) =
           Inr (response 201
             [(''short_url'', rstrip_slash b @ ''/'' @ candidate w k),
              (''short_code'', candidate w k),
              (''long_url'', strip raw),
              (''expires_in'', ''90 days'')])
         \<and> table (snd (create_lambda_handler json_loads environ ev w)) (candidate w k) \<noteq> None)"
  (is "?keeps \<and> ?absent \<and> ?two \<and> ?retries")
proof -
  have inserted: "\<exists>k it u. k < 5 \<and> (\<forall>i<k. rejected v i)
           \<and> body r = JsonDumps [(''short_url'', u), (''short_code'', candidate v k),
                                  (''long_url'', long_url it), (''expires_in'', ''90 days'')]
           \<and> short_code it = candidate v k
           \<and> table v (candidate v k) = None
           \<and> table (snd (create_lambda_handler l e x v)) = (table v)(candidate v k \<mapsto> it)"
    if run: "fst (create_lambda_handler l e x v) = Inr r" and ok: "statusCode r = 201"
    for l e x v r
  proof -
    from create_success [OF run ok] obtain raw k b
      where k: "k < 5" "\<forall>i<k. rejected v i" "table v (candidate v k) = None"
        and r: "r = response 201
                 [(''short_url'', rstrip_slash b @ ''/'' @ candidate v k),
                  (''short_code'', candidate v k),
                  (''long_url'', strip raw),
                  (''expires_in'', ''90 days'')]"
        and v': "snd (create_lambda_handler l e x v) =
               ((retry_world (strip raw) ^^ Suc k) v)
                 \<lparr>table := (table v)(candidate v k \<mapsto>
                    \<lparr>short_code = candidate v k, long_url = strip raw,
                     created_at = clock v (reads v + 2 * k),
                     expires_at = clock v (reads v + 2 * k + 1) + 60 * 60 * 24 * 90\<rparr>)\<rparr>"
      by blast
    let ?it = "\<lparr>short_code = candidate v k, long_url = strip raw,
                     created_at = clock v (reads v + 2 * k),
                     expires_at = clock v (reads v + 2 * k + 1) + 60 * 60 * 24 * 90\<rparr>"
    have "body r = JsonDumps [(''short_url'', rstrip_slash b @ ''/'' @ candidate v k),
                              (''short_code'', candidate v k),
                              (''long_url'', long_url ?it), (''expires_in'', ''90 days'')]"
      by (simp add: r)
    moreover have "short_code ?it = candidate v k" by simp
    moreover have "table (snd (create_lambda_handler l e x v)) = (table v)(candidate v k \<mapsto> ?it)"
      by (simp add: v')
    ultimately show ?thesis using k by blast
  qed
  have keeps: ?keeps
    by (simp add: create_keeps_records)
  have absent: ?absent
    using inserted by blast
  have two: ?two
  proof (intro allI impI, elim conjE)
    fix json_loads2 environ2 ev2 r r2
    let ?w1 = "snd (create_lambda_handler json_loads environ ev w)"
    let ?w2 = "snd (create_lambda_handler json_loads2 environ2 ev2 ?w1)"
    assume first: "fst (create_lambda_handler json_loads environ ev w) = Inr r" "statusCode r = 201"
      and second: "fst (create_lambda_handler json_loads2 environ2 ev2 ?w1) = Inr r2"
        "statusCode r2 = 201"
    from inserted [OF first] obtain k it u
      where b1: "body r = JsonDumps [(''short_url'', u), (''short_code'', candidate w k),
                                  (''long_url'', long_url it), (''expires_in'', ''90 days'')]"
        and t1: "table ?w1 = (table w)(candidate w k \<mapsto> it)" by blast
    from inserted [OF second] obtain k2 it2 u2
      where b2: "body r2 = JsonDumps [(''short_url'', u2), (''short_code'', candidate ?w1 k2),
                                  (''long_url'', long_url it2), (''expires_in'', ''90 days'')]"
        and free: "table ?w1 (candidate ?w1 k2) = None"
        and t2: "table ?w2 = (table ?w1)(candidate ?w1 k2 \<mapsto> it2)" by blast
    have stored: "table ?w1 (candidate w k) = Some it" by (simp add: t1)
    with free have differ: "candidate w k \<noteq> candidate ?w1 k2" by auto
    have "table ?w2 (candidate w k) = Some it"
      using stored differ by (simp add: t2)
    moreover have "table ?w2 (candidate ?w1 k2) = Some it2" by (simp add: t2)
    ultimately show "\<exists>code code2 it it2 u u2.
            body r = JsonDumps [(''short_url'', u), (''short_code'', code),
                                (''long_url'', long_url it), (''expires_in'', ''90 days'')]
            \<and> body r2 = JsonDumps [(''short_url'', u2), (''short_code'', code2),
                                   (''long_url'', long_url it2), (''expires_in'', ''90 days'')]
            \<and> code \<noteq> code2
            \<and> table ?w2 code = Some it \<and> table ?w2 code2 = Some it2"
      using b1 b2 differ by blast
  qed
  have retries: ?retries
  proof (intro allI impI, elim conjE)
    fix kv raw k b
    assume req: "json_loads (body_text ev) = Inr (JObject kv)"
      "map_of kv ''long_url'' = Some (JString raw)"
      "strip raw \<noteq> []" "startswith_http (strip raw)"
      and k: "k < 5" and rej: "\<forall>i<k. rejected w i"
      and nofault: "faults w (length (calls w) + k) = None"
      and free: "table w (candidate w k) = None" and base: "environ ''BASE_URL'' = Some b"
    have run: "create_lambda_handler json_loads environ ev w = attempts 5 environ (strip raw) w"
      using req by (simp add: create_lambda_handler_def)
    define m where "m = 5 - Suc k"
    have five: "5 = k + Suc m" using k by (simp add: m_def)
    have "attempts 5 environ (strip raw) w = attempts (k + Suc m) environ (strip raw) w"
      using five by simp
    then show "fst (create_lambda_handler json_loads environ ev w) =
           Inr (response 201
             [(''short_url'', rstrip_slash b @ ''/'' @ candidate w k),
              (''short_code'', candidate w k),
              (''long_url'', strip raw),
              (''expires_in'', ''90 days'')])
         \<and> table (snd (create_lambda_handler json_loads environ ev w)) (candidate w k) \<noteq> None"
      unfolding run
      using attempts_accepted [OF rej nofault free, where m = m and environ = environ
          and url = "strip raw"] base
      by simp
  qed
  from keeps absent two retries show ?thesis by blast
qed


lemma occupied_facts:
  "table occupied_world ''abcdefgh'' = Some example_item"
  "rejected occupied_world 0"
  "candidate occupied_world 1 = ''ijklmnop''"
  "fst (create_lambda_handler example_loads example_environ example_event occupied_world) =
     Inr (response 201
       [(''short_url'', ''https://api.example.com/prod/ijklmnop''),
        (''short_code'', ''ijklmnop''),
        (''long_url'', ''https://example.com/page''),
        (''expires_in'', ''90 days'')])"
  "fst (create_lambda_handler example_loads example_environ example_event
     (snd (create_lambda_handler example_loads example_environ example_event occupied_world))) =
     Inr (response 201
       [(''short_url'', ''https://api.example.com/prod/qrstuvwx''),
        (''short_code'', ''qrstuvwx''),
        (''long_url'', ''https://example.com/page''),
        (''expires_in'', ''90 days'')])"
  by (simp_all only: occupied_second_create)
    (simp_all add: occupied_rejected example_candidates occupied_create)

theorem create_inserts_absent_code_witness:
  "table occupied_world ''abcdefgh'' = Some example_item
   \<and> rejected occupied_world 0
   \<and> candidate occupied_world 1 = ''ijklmnop''
   \<and> fst (create_lambda_handler example_loads example_environ example_event occupied_world) =
       Inr (response 201
         [(''short_url'', ''https://api.example.com/prod/ijklmnop''),
          (''short_code'', ''ijklmnop''),
          (''long_url'', ''https://example.com/page''),
          (''expires_in'', ''90 days'')])
   \<and> fst (create_lambda_handler example_loads example_environ example_event
       (snd (create_lambda_handler example_loads example_environ example_event occupied_world))) =
       Inr (response 201
         [(''short_url'', ''https://api.example.com/prod/qrstuvwx''),
          (''short_code'', ''qrstuvwx''),
          (''long_url'', ''https://example.com/page''),
          (''expires_in'', ''90 days'')])
   \<and> table (snd (create_lambda_handler example_loads example_environ example_event
         occupied_world)) ''abcdefgh'' = Some example_item
   \<and> (\<exists>code code2 it it2 u u2.
         body (response 201
           [(''short_url'', ''https://api.example.com/prod/ijklmnop''),
            (''short_code'', ''ijklmnop''),
            (''long_url'', ''https://example.com/page''),
            (''expires_in'', ''90 days'')]) =
           JsonDumps [(''short_url'', u), (''short_code'', code),
                      (''long_url'', long_url it), (''expires_in'', ''90 days'')]
         \<and> body (response 201
           [(''short_url'', ''https://api.example.com/prod/qrstuvwx''),
            (''short_code'', ''qrstuvwx''),
            (''long_url'', ''https://example.com/page''),
            (''expires_in'', ''90 days'')]) =
           JsonDumps [(''short_url'', u2), (''short_code'', code2),
                      (''long_url'', long_url it2), (''expires_in'', ''90 days'')]
         \<and> code \<noteq> code2
         \<and> table (snd (create_lambda_handler example_loads example_environ example_event
              (snd (create_lambda_handler example_loads example_environ example_event
                 occupied_world)))) code = Some it
         \<and> table (snd (create_lambda_handler example_loads example_environ example_event
              (snd (create_lambda_handler example_loads example_environ example_event
                 occupied_world)))) code2 = Some it2)"
proof -
  let ?r1 = "response 201
         [(''short_url'', ''https://api.example.com/prod/ijklmnop''),
          (''short_code'', ''ijklmnop''),
          (''long_url'', ''https://example.com/page''),
          (''expires_in'', ''90 days'')]"
  let ?r2 = "response 201
         [(''short_url'', ''https://api.example.com/prod/qrstuvwx''),
          (''short_code'', ''qrstuvwx''),
          (''long_url'', ''https://example.com/page''),
          (''expires_in'', ''90 days'')]"
  note t = create_inserts_absent_code [where json_loads = example_loads
      and environ = example_environ and ev = example_event and w = occupied_world]
  have keeps: "table (snd (create_lambda_handler example_loads example_environ example_event
         occupied_world)) ''abcdefgh'' = Some example_item"
    using t [THEN conjunct1] occupied_facts(1) by blast
  have hyp: "fst (create_lambda_handler example_loads example_environ example_event occupied_world)
        = Inr ?r1 \<and> statusCode ?r1 = 201
      \<and> fst (create_lambda_handler example_loads example_environ example_event
          (snd (create_lambda_handler example_loads example_environ example_event occupied_world)))
        = Inr ?r2 \<and> statusCode ?r2 = 201"
    using occupied_facts(4,5) by simp
  note two = t [THEN conjunct2, THEN conjunct2, THEN conjunct1, rule_format,
      where ?json_loads2.0 = example_loads and ?environ2.0 = example_environ
        and ?ev2.0 = example_event and r = ?r1 and ?r2.0 = ?r2, OF hyp]
  from occupied_facts keeps two show ?thesis by (intro conjI)
qed

subsection \<open>Claims about validation\<close>

text \<open>
  Claim C10. The create handler strips the whitespace around \<open>long_url\<close> before it
  validates and stores it. For a body that decodes to an object whose \<open>long_url\<close> is a
  string: a value made of whitespace only is rejected with 400 as a missing
  \<open>long_url\<close>, the world untouched; and when the handler returns 201, the \<open>long_url\<close>
  it echoes and the one it stored are the stripped value. The stripped value is the
  request's value without a whitespace prefix and a whitespace suffix, and it neither
  starts nor ends with whitespace; so it can differ from the request's value.
\<close>

theorem create_strips_long_url:
  assumes "json_loads (body_text ev) = Inr (JObject kv)"
    and "map_of kv ''long_url'' = Some (JString raw)"
  shows "((\<forall>c \<in> set raw. isspace c) \<longrightarrow>
            create_lambda_handler json_loads environ ev w =
              (Inr (response 400 [(''error'', ''long_url is required'')]), w))
         \<and> (\<forall>r. fst (create_lambda_handler json_loads environ ev w) = Inr r \<and> statusCode r = 201 \<longrightarrow>
              (\<exists>code u it.
                 body r = JsonDumps [(''short_url'', u), (''short_code'', code),
                                     (''long_url'', strip raw), (''expires_in'', ''90 days'')]
                 \<and> table (snd (create_lambda_handler json_loads environ ev w)) code = Some it
                 \<and> long_url it = strip raw))
         \<and> (\<exists>pre post. raw = pre @ strip raw @ post
               \<and> (\<forall>c \<in> set pre. isspace c) \<and> (\<forall>c \<in> set post. isspace c))
         \<and> (strip raw \<noteq> [] \<longrightarrow> \<not> isspace (hd (strip raw)) \<and> \<not> isspace (last (strip raw)))"
proof -
  have blank: "create_lambda_handler json_loads environ ev w =
              (Inr (response 400 [(''error'', ''long_url is required'')]), w)"
    if "\<forall>c \<in> set raw. isspace c"
  proof -
    from that have "strip raw = []" by (simp add: strip_eq_Nil)
    with assms show ?thesis by (simp add: create_lambda_handler_def)
  qed
  have stored: "\<exists>code u it.
                 body r = JsonDumps [(''short_url'', u), (''short_code'', code),
                                     (''long_url'', strip raw), (''expires_in'', ''90 days'')]
                 \<and> table (snd (create_lambda_handler json_loads environ ev w)) code = Some it
                 \<and> long_url it = strip raw"
    if run: "fst (create_lambda_handler json_loads environ ev w) = Inr r" and ok: "statusCode r = 201"
    for r
  proof -
    from create_success [OF run ok] obtain kv' raw' k b
      where req: "json_loads (body_text ev) = Inr (JObject kv')"
        "map_of kv' ''long_url'' = Some (JString raw')"
        and r: "r = response 201
                 [(''short_url'', rstrip_slash b @ ''/'' @ candidate w k),
                  (''short_code'', candidate w k),
                  (''long_url'', strip raw'),
                  (''expires_in'', ''90 days'')]"
        and w': "snd (create_lambda_handler json_loads environ ev w) =
               ((retry_world (strip raw') ^^ Suc k) w)
                 \<lparr>table := (table w)(candidate w k \<mapsto>
                    \<lparr>short_code = candidate w k, long_url = strip raw',
                     created_at = clock w (reads w + 2 * k),
                     expires_at = clock w (reads w + 2 * k + 1) + 60 * 60 * 24 * 90\<rparr>)\<rparr>"
      by blast
    from req assms have same: "raw' = raw" by simp
    let ?it = "\<lparr>short_code = candidate w k, long_url = strip raw,
                     created_at = clock w (reads w + 2 * k),
                     expires_at = clock w (reads w + 2 * k + 1) + 60 * 60 * 24 * 90\<rparr>"
    have "body r = JsonDumps [(''short_url'', rstrip_slash b @ ''/'' @ candidate w k),
                              (''short_code'', candidate w k),
                              (''long_url'', strip raw), (''expires_in'', ''90 days'')]"
      by (simp add: r same)
    moreover have "table (snd (create_lambda_handler json_loads environ ev w)) (candidate w k)
        = Some ?it"
      by (simp add: w' same)
    moreover have "long_url ?it = strip raw" by simp
    ultimately show ?thesis by blast
  qed
  from blank stored strip_decomp [of raw] strip_ends [of raw] show ?thesis by blast
qed

lemma strips_facts:
  "example_loads (body_text (post leading_text)) =
     Inr (JObject [(''long_url'', JString '' https://example.com/page'')])"
  "strip '' https://example.com/page'' = ''https://example.com/page''"
  "example_loads (body_text (post blank_text)) = Inr (JObject [(''long_url'', JString ''   '')])"
  "isspace (CHR '' '')"
  by code_simp+

lemma leading_create:
  "create_lambda_handler example_loads example_environ (post leading_text) example_world =
     (Inr (response 201
        [(''short_url'', ''https://api.example.com/prod/abcdefgh''),
         (''short_code'', ''abcdefgh''),
         (''long_url'', ''https://example.com/page''),
         (''expires_in'', ''90 days'')]),
      ((retry_world ''https://example.com/page'' ^^ Suc 0) example_world)
        \<lparr>table := (table example_world)(''abcdefgh'' \<mapsto>
           \<lparr>short_code = ''abcdefgh'', long_url = ''https://example.com/page'',
            created_at = 1700000000, expires_at = 1707776000\<rparr>)\<rparr>)"
proof -
  have "\<forall>i<0. rejected example_world i" by simp
  moreover have "faults example_world (length (calls example_world) + 0) = None"
    by simp
  moreover have "table example_world (candidate example_world 0) = None"
    by simp
  ultimately show ?thesis
    using create_accepted [where json_loads = example_loads and ev = "post leading_text"
        and kv = "[(''long_url'', JString '' https://example.com/page'')]"
        and raw = "'' https://example.com/page''" and environ = example_environ
        and w = example_world and k = 0 and b = "''https://api.example.com/prod/''"]
      strips_facts(1,2) example_request(4) example_base
    by (simp add: example_candidates example_rstrip)
qed

theorem create_strips_long_url_witness:
  "example_loads (body_text (post blank_text)) = Inr (JObject [(''long_url'', JString ''   '')])
   \<and> isspace (CHR '' '')
   \<and> create_lambda_handler example_loads example_environ (post blank_text) example_world =
       (Inr (response 400 [(''error'', ''long_url is required'')]), example_world)
   \<and> example_loads (body_text (post leading_text)) =
       Inr (JObject [(''long_url'', JString '' https://example.com/page'')])
   \<and> fst (create_lambda_handler example_loads example_environ (post leading_text) example_world) =
       Inr (response 201
         [(''short_url'', ''https://api.example.com/prod/abcdefgh''),
          (''short_code'', ''abcdefgh''),
          (''long_url'', ''https://example.com/page''),
          (''expires_in'', ''90 days'')])
   \<and> strip '' https://example.com/page'' \<noteq> '' https://example.com/page''
   \<and> (\<exists>code u it.
         body (response 201
           [(''short_url'', ''https://api.example.com/prod/abcdefgh''),
            (''short_code'', ''abcdefgh''),
            (''long_url'', ''https://example.com/page''),
            (''expires_in'', ''90 days'')]) =
           JsonDumps [(''short_url'', u), (''short_code'', code),
                      (''long_url'', strip '' https://example.com/page''),
                      (''expires_in'', ''90 days'')]
         \<and> table (snd (create_lambda_handler example_loads example_environ (post leading_text)
              example_world)) code = Some it
         \<and> long_url it = strip '' https://example.com/page'')"
proof -
  let ?r = "response 201
         [(''short_url'', ''https://api.example.com/prod/abcdefgh''),
          (''short_code'', ''abcdefgh''),
          (''long_url'', ''https://example.com/page''),
          (''expires_in'', ''90 days'')]"
  have kv: "map_of [(''long_url'', JString s)] ''long_url'' = Some (JString s)" for s
    by simp
  have created: "fst (create_lambda_handler example_loads example_environ (post leading_text)
      example_world) = Inr ?r"
    by (simp add: leading_create)
  note blank = create_strips_long_url [where json_loads = example_loads and ev = "post blank_text"
      and kv = "[(''long_url'', JString ''   '')]" and raw = "''   ''"
      and environ = example_environ and w = example_world, OF strips_facts(3) kv,
      THEN conjunct1, rule_format]
  have rejected: "create_lambda_handler example_loads example_environ (post blank_text)
       example_world = (Inr (response 400 [(''error'', ''long_url is required'')]), example_world)"
    by (rule blank) (simp add: strips_facts(4))
  note echo = create_strips_long_url [where json_loads = example_loads
      and ev = "post leading_text"
      and kv = "[(''long_url'', JString '' https://example.com/page'')]"
      and raw = "'' https://example.com/page''"
      and environ = example_environ and w = example_world, OF strips_facts(1) kv,
      THEN conjunct2, THEN conjunct1, rule_format, where r = ?r]
  have stored: "\<exists>code u it.
         body ?r = JsonDumps [(''short_url'', u), (''short_code'', code),
                      (''long_url'', strip '' https://example.com/page''),
                      (''expires_in'', ''90 days'')]
         \<and> table (snd (create_lambda_handler example_loads example_environ (post leading_text)
              example_world)) code = Some it
         \<and> long_url it = strip '' https://example.com/page''"
    by (rule echo) (simp add: created)
  have differs: "strip '' https://example.com/page'' \<noteq> '' https://example.com/page''"
    by (simp add: strips_facts(2))
  from strips_facts(3,4) rejected strips_facts(1) created differs stored show ?thesis
    by (intro conjI)
qed

text \<open>
  Claim C6, as stated: for every body that decodes, a \<open>long_url\<close> that is not empty and
  does not start with \<open>http://\<close> or \<open>https://\<close> is rejected with 400 and nothing is
  written. It fails on a value with leading whitespace: the request's \<open>long_url\<close>
  \<open>" https://example.com/page"\<close> starts with a space, yet the handler strips it, accepts
  it, writes a record and returns 201.
\<close>

theorem create_rejects_bad_prefix_counterexample:
  "example_loads (body_text (post leading_text)) =
     Inr (JObject [(''long_url'', JString '' https://example.com/page'')])
   \<and> '' https://example.com/page'' \<noteq> []
   \<and> \<not> startswith_http '' https://example.com/page''
   \<and> fst (create_lambda_handler example_loads example_environ (post leading_text) example_world) =
       Inr (response 201
         [(''short_url'', ''https://api.example.com/prod/abcdefgh''),
          (''short_code'', ''abcdefgh''),
          (''long_url'', ''https://example.com/page''),
          (''expires_in'', ''90 days'')])
   \<and> statusCode (response 201
         [(''short_url'', ''https://api.example.com/prod/abcdefgh''),
          (''short_code'', ''abcdefgh''),
          (''long_url'', ''https://example.com/page''),
          (''expires_in'', ''90 days'')]) \<noteq> 400
   \<and> calls (snd (create_lambda_handler example_loads example_environ (post leading_text)
        example_world)) =
       [PutItem \<lparr>short_code = ''abcdefgh'', long_url = ''https://example.com/page'',
                 created_at = 1700000000, expires_at = 1707776000\<rparr>]
   \<and> table (snd (create_lambda_handler example_loads example_environ (post leading_text)
        example_world)) ''abcdefgh'' =
       Some \<lparr>short_code = ''abcdefgh'', long_url = ''https://example.com/page'',
             created_at = 1700000000, expires_at = 1707776000\<rparr>"
proof -
  have "\<not> startswith_http '' https://example.com/page''"
    by code_simp
  moreover have "new_item ''https://example.com/page'' example_world =
      \<lparr>short_code = ''abcdefgh'', long_url = ''https://example.com/page'',
        created_at = 1700000000, expires_at = 1707776000\<rparr>"
    using example_candidates(1) by (simp add: new_item_def candidate_0)
  ultimately show ?thesis
    using strips_facts(1) by (simp add: leading_create)
qed

text \<open>
  Claim C6, amended. For a body that decodes to an object in which \<open>long_url\<close> is absent
  or a string: if \<open>long_url\<close> is absent, or empty once the whitespace around it is
  stripped, the handler returns 400 with the error \<open>long_url is required\<close>; if the
  stripped value is not empty and does not start with \<open>http://\<close> or \<open>https://\<close>, it
  returns 400 with the error \<open>long_url must start with http:// or https://\<close>. In both
  cases the world is as it was: the store was not called.
\<close>

theorem create_rejects_invalid_long_url:
  assumes "json_loads (body_text ev) = Inr (JObject kv)"
  shows "(map_of kv ''long_url'' = None \<longrightarrow>
            create_lambda_handler json_loads environ ev w =
              (Inr (response 400 [(''error'', ''long_url is required'')]), w))
         \<and> (\<forall>raw. map_of kv ''long_url'' = Some (JString raw) \<and> strip raw = [] \<longrightarrow>
              create_lambda_handler json_loads environ ev w =
                (Inr (response 400 [(''error'', ''long_url is required'')]), w))
         \<and> (\<forall>raw. map_of kv ''long_url'' = Some (JString raw) \<and> strip raw \<noteq> []
                \<and> \<not> startswith_http (strip raw) \<longrightarrow>
              create_lambda_handler json_loads environ ev w =
                (Inr (response 400
                   [(''error'', ''long_url must start with http:// or https://'')]), w))"
  using assms by (simp add: create_lambda_handler_def)

lemma ftp_facts:
  "example_loads (body_text (post ftp_text)) = Inr (JObject [(''long_url'', JString ''ftp://x.com'')])"
  "strip ''ftp://x.com'' = ''ftp://x.com''"
  "\<not> startswith_http ''ftp://x.com''"
  "example_loads (body_text (post ''{}'')) = Inr (JObject [])"
  by code_simp+

theorem create_rejects_invalid_long_url_witness:
  "example_loads (body_text (post ftp_text)) = Inr (JObject [(''long_url'', JString ''ftp://x.com'')])
   \<and> strip ''ftp://x.com'' \<noteq> [] \<and> \<not> startswith_http (strip ''ftp://x.com'')
   \<and> create_lambda_handler example_loads example_environ (post ftp_text) example_world =
       (Inr (response 400 [(''error'', ''long_url must start with http:// or https://'')]),
        example_world)
   \<and> example_loads (body_text (post blank_text)) = Inr (JObject [(''long_url'', JString ''   '')])
   \<and> strip ''   '' = []
   \<and> create_lambda_handler example_loads example_environ (post blank_text) example_world =
       (Inr (response 400 [(''error'', ''long_url is required'')]), example_world)
   \<and> example_loads (body_text (post ''{}'')) = Inr (JObject [])
   \<and> create_lambda_handler example_loads example_environ (post ''{}'') example_world =
       (Inr (response 400 [(''error'', ''long_url is required'')]), example_world)"
proof -
  have blank: "strip ''   '' = []"
    by (simp add: strip_eq_Nil strips_facts(4))
  note ftp = create_rejects_invalid_long_url [where json_loads = example_loads
      and ev = "post ftp_text" and kv = "[(''long_url'', JString ''ftp://x.com'')]"
      and environ = example_environ and w = example_world, OF ftp_facts(1),
      THEN conjunct2, THEN conjunct2, rule_format, where raw = "''ftp://x.com''"]
  note spaces = create_rejects_invalid_long_url [where json_loads = example_loads
      and ev = "post blank_text" and kv = "[(''long_url'', JString ''   '')]"
      and environ = example_environ and w = example_world, OF strips_facts(3),
      THEN conjunct2, THEN conjunct1, rule_format, where raw = "''   ''"]
  note missing = create_rejects_invalid_long_url [where json_loads = example_loads
      and ev = "post ''{}''" and kv = "[]"
      and environ = example_environ and w = example_world, OF ftp_facts(4),
      THEN conjunct1, rule_format]
  have 1: "create_lambda_handler example_loads example_environ (post ftp_text) example_world =
       (Inr (response 400 [(''error'', ''long_url must start with http:// or https://'')]),
        example_world)"
    by (rule ftp) (simp add: ftp_facts)
  have 2: "create_lambda_handler example_loads example_environ (post blank_text) example_world =
       (Inr (response 400 [(''error'', ''long_url is required'')]), example_world)"
    by (rule spaces) (simp add: blank)
  have 3: "create_lambda_handler example_loads example_environ (post ''{}'') example_world =
       (Inr (response 400 [(''error'', ''long_url is required'')]), example_world)"
    by (rule missing) simp
  have "strip ''ftp://x.com'' \<noteq> []" "\<not> startswith_http (strip ''ftp://x.com'')"
    by (simp_all add: ftp_facts)
  with ftp_facts(1,4) strips_facts(3) blank 1 2 3 show ?thesis
    by (intro conjI)
qed

text \<open>What the amended claim leaves out: a \<open>long_url\<close> that is not a string, or a body
  that is not an object, raises \<open>AttributeError\<close>, which nothing catches.\<close>

lemma create_attribute_error:
  "json_loads (body_text ev) = Inr (JObject kv) \<Longrightarrow> map_of kv ''long_url'' = Some v \<Longrightarrow>
     (\<forall>s. v \<noteq> JString s) \<Longrightarrow>
     create_lambda_handler json_loads environ ev w = (Inl AttributeError, w)"
  "json_loads (body_text ev) = Inr b \<Longrightarrow> (\<forall>kv. b \<noteq> JObject kv) \<Longrightarrow>
     create_lambda_handler json_loads environ ev w = (Inl AttributeError, w)"
  by (cases v; simp add: create_lambda_handler_def) (cases b; simp add: create_lambda_handler_def)

text \<open>
  Claim C7, as stated: every body string that is not valid JSON is rejected with 400
  and a message different from the messages of a failed validation. It fails on the
  empty body: the empty string is not valid JSON (the decoder raises
  \<open>JSONDecodeError\<close> on it), but the handler reads an empty body as \<open>{}\<close> and answers
  with the message of a missing \<open>long_url\<close>.
\<close>

theorem create_malformed_body_counterexample:
  "example_loads '''' = Inl JSONDecodeError
   \<and> create_lambda_handler example_loads example_environ (post '''') example_world =
       (Inr (response 400 [(''error'', ''long_url is required'')]), example_world)
   \<and> response 400 [(''error'', ''long_url is required'')] \<noteq>
       response 400 [(''error'', ''Request body must be valid JSON'')]"
proof -
  have "example_loads '''' = Inl JSONDecodeError" "example_loads ''{}'' = Inr (JObject [])"
    by code_simp+
  then show ?thesis
    by (simp add: create_lambda_handler_def body_text_def post_def response_def)
qed

text \<open>
  The handler catches \<open>JSONDecodeError\<close> only. Any other exception of the decoder
  (\<open>RecursionError\<close> on a deeply nested text, \<open>ValueError\<close> on an integer literal
  longer than the interpreter's digit limit) leaves the handler uncaught, with the
  world as it was.
\<close>

lemma create_decoder_error:
  "json_loads (body_text ev) = Inl x \<Longrightarrow> x \<noteq> JSONDecodeError \<Longrightarrow>
     create_lambda_handler json_loads environ ev w = (Inl x, w)"
  by (simp add: create_lambda_handler_def)

lemma create_deep_body:
  "create_lambda_handler example_loads example_environ (post deep_text) example_world =
     (Inl RecursionError, example_world)"
proof -
  have "deep_text \<noteq> []" by (simp add: deep_text_def)
  then have "body_text (post deep_text) = deep_text"
    by (simp add: body_text_def post_def)
  moreover have "example_loads deep_text = Inl RecursionError"
    by code_simp
  ultimately show ?thesis
    by (simp add: create_lambda_handler_def)
qed

text \<open>
  Claim C7, amended. For every create request whose body is a non-empty string on
  which the decoder raises \<open>JSONDecodeError\<close>, the handler returns 400 with the error
  \<open>Request body must be valid JSON\<close> and the world as it was (the store was not called);
  that response differs from the two responses of a failed validation. A missing or
  empty body is read as the empty object, and so rejected as a missing \<open>long_url\<close>.
  Nothing is said of a body on which the decoder raises another exception.
\<close>

theorem create_rejects_malformed_body:
  "(\<forall>s. ev_body ev = Some s \<and> s \<noteq> [] \<and> json_loads s = Inl JSONDecodeError \<longrightarrow>
      create_lambda_handler json_loads environ ev w =
        (Inr (response 400 [(''error'', ''Request body must be valid JSON'')]), w))
   \<and> response 400 [(''error'', ''Request body must be valid JSON'')] \<noteq>
       response 400 [(''error'', ''long_url is required'')]
   \<and> response 400 [(''error'', ''Request body must be valid JSON'')] \<noteq>
       response 400 [(''error'', ''long_url must start with http:// or https://'')]
   \<and> ((ev_body ev = None \<or> ev_body ev = Some []) \<and> json_loads ''{}'' = Inr (JObject []) \<longrightarrow>
        create_lambda_handler json_loads environ ev w =
          (Inr (response 400 [(''error'', ''long_url is required'')]), w))"
  by (auto simp: create_lambda_handler_def body_text_def response_def)

theorem create_rejects_malformed_body_witness:
  "ev_body (post ''not json'') = Some ''not json'' \<and> ''not json'' \<noteq> []
   \<and> example_loads ''not json'' = Inl JSONDecodeError
   \<and> create_lambda_handler example_loads example_environ (post ''not json'') example_world =
       (Inr (response 400 [(''error'', ''Request body must be valid JSON'')]), example_world)
   \<and> ev_body (post '''') = Some [] \<and> example_loads ''{}'' = Inr (JObject [])
   \<and> create_lambda_handler example_loads example_environ (post '''') example_world =
       (Inr (response 400 [(''error'', ''long_url is required'')]), example_world)"
proof -
  have loads: "example_loads ''not json'' = Inl JSONDecodeError" "example_loads ''{}'' = Inr (JObject [])"
    by code_simp+
  have body: "ev_body (post ''not json'') = Some ''not json''" "ev_body (post '''') = Some []"
    by (simp_all add: post_def)
  note t = create_rejects_malformed_body [where json_loads = example_loads
      and environ = example_environ and w = example_world]
  have 1: "create_lambda_handler example_loads example_environ (post ''not json'') example_world =
       (Inr (response 400 [(''error'', ''Request body must be valid JSON'')]), example_world)"
    by (rule t [where ev = "post ''not json''", THEN conjunct1, rule_format,
          where s = "''not json''"]) (simp add: loads body)
  have 2: "create_lambda_handler example_loads example_environ (post '''') example_world =
       (Inr (response 400 [(''error'', ''long_url is required'')]), example_world)"
    by (rule t [where ev = "post ''''", THEN conjunct2, THEN conjunct2, THEN conjunct2,
          rule_format]) (simp add: loads body)
  have "''not json'' \<noteq> []" by simp
  with body loads 1 2 show ?thesis by (intro conjI)
qed

subsection \<open>Claims about the redirect handler\<close>

text \<open>
  Claim C9, as stated: every request with a non-empty short code that is not in the store
  gets 404. It fails on a code made of whitespace: the code \<open>" "\<close> is not empty and is
  not a key of the (empty) table, yet the handler strips it and answers 400, without
  asking the store.
\<close>

theorem redirect_not_found_counterexample:
  "pathParameters (get '' '') = Some [''short_code'' \<mapsto> '' '']
   \<and> '' '' \<noteq> []
   \<and> table example_world '' '' = None
   \<and> redirect_lambda_handler (get '' '') example_world =
       (Inr (response 400 [(''error'', ''short_code is required'')]), example_world)
   \<and> statusCode (response 400 [(''error'', ''short_code is required'')]) \<noteq> 404"
proof -
  have "strip '' '' = []" by code_simp
  then show ?thesis
    by (simp add: redirect_lambda_handler_def get_def Let_def)
qed

text \<open>
  Claim C9, amended. For every redirect request whose short code is not empty once the
  whitespace around it is stripped: if the lookup of the stripped code succeeds and
  finds no record (the code was never created, or its record expired and the store
  removed it), the handler returns 404 with an error body naming the stripped code; it
  has made one call, the lookup, and changed nothing else. A code that is empty once
  stripped is rejected with 400.
\<close>

theorem redirect_not_found:
  "(\<forall>p s. pathParameters ev = Some p \<and> p ''short_code'' = Some s \<and> strip s \<noteq> []
        \<and> faults w (length (calls w)) = None \<and> table w (strip s) = None \<longrightarrow>
      redirect_lambda_handler ev w =
        (Inr (response 404
           [(''error'', ''Short code '' @ [CHR 0x27] @ strip s @ [CHR 0x27] @ '' not found'')]),
         w\<lparr>calls := calls w @ [GetItem (strip s)]\<rparr>))
   \<and> (\<forall>p s. pathParameters ev = Some p \<and> p ''short_code'' = Some s \<and> strip s = [] \<longrightarrow>
        redirect_lambda_handler ev w =
          (Inr (response 400 [(''error'', ''short_code is required'')]), w))"
proof -
  have found: "redirect_lambda_handler ev w =
        (Inr (response 404
           [(''error'', ''Short code '' @ [CHR 0x27] @ strip s @ [CHR 0x27] @ '' not found'')]),
         w\<lparr>calls := calls w @ [GetItem (strip s)]\<rparr>)"
    if "pathParameters ev = Some p" "p ''short_code'' = Some s" "strip s \<noteq> []"
      "faults w (length (calls w)) = None" "table w (strip s) = None" for p s
    using redirect_lookup [OF that(1-4)] that(5) by simp
  have blank: "redirect_lambda_handler ev w =
          (Inr (response 400 [(''error'', ''short_code is required'')]), w)"
    if "pathParameters ev = Some p" "p ''short_code'' = Some s" "strip s = []" for p s
    by (rule redirect_blank) (simp add: that)
  from found blank show ?thesis by blast
qed

theorem redirect_not_found_witness:
  "pathParameters (get ''zzzzzzzz'') = Some [''short_code'' \<mapsto> ''zzzzzzzz'']
   \<and> strip ''zzzzzzzz'' = ''zzzzzzzz''
   \<and> faults example_world (length (calls example_world)) = None
   \<and> table example_world ''zzzzzzzz'' = None
   \<and> redirect_lambda_handler (get ''zzzzzzzz'') example_world =
       (Inr (response 404
          [(''error'', ''Short code '' @ [CHR 0x27] @ ''zzzzzzzz'' @ [CHR 0x27] @ '' not found'')]),
        example_world\<lparr>calls := calls example_world @ [GetItem ''zzzzzzzz'']\<rparr>)
   \<and> strip '' '' = []
   \<and> redirect_lambda_handler (get '' '') example_world =
       (Inr (response 400 [(''error'', ''short_code is required'')]), example_world)"
proof -
  have s: "strip ''zzzzzzzz'' = ''zzzzzzzz''" "strip '' '' = []" by code_simp+
  have p: "pathParameters (get c) = Some [''short_code'' \<mapsto> c]" for c
    by (simp add: get_def)
  note t = redirect_not_found [where w = example_world]
  have 1: "redirect_lambda_handler (get ''zzzzzzzz'') example_world =
       (Inr (response 404
          [(''error'', ''Short code '' @ [CHR 0x27] @ strip ''zzzzzzzz'' @ [CHR 0x27] @ '' not found'')]),
        example_world\<lparr>calls := calls example_world @ [GetItem (strip ''zzzzzzzz'')]\<rparr>)"
    by (rule t [where ev = "get ''zzzzzzzz''", THEN conjunct1, rule_format,
          where p = "[''short_code'' \<mapsto> ''zzzzzzzz'']"]) (simp add: p s)
  have 2: "redirect_lambda_handler (get '' '') example_world =
       (Inr (response 400 [(''error'', ''short_code is required'')]), example_world)"
    by (rule t [where ev = "get '' ''", THEN conjunct2, rule_format,
          where p = "[''short_code'' \<mapsto> '' '']" and s = "'' ''"]) (simp add: p s)
  from 1 have found: "redirect_lambda_handler (get ''zzzzzzzz'') example_world =
       (Inr (response 404
          [(''error'', ''Short code '' @ [CHR 0x27] @ ''zzzzzzzz'' @ [CHR 0x27] @ '' not found'')]),
        example_world\<lparr>calls := calls example_world @ [GetItem ''zzzzzzzz'']\<rparr>)"
    by (simp only: s)
  have "faults example_world (length (calls example_world)) = None"
    "table example_world ''zzzzzzzz'' = None" by simp_all
  with p [of "''zzzzzzzz''"] s found 2 show ?thesis by (intro conjI)
qed

subsection \<open>Claims about the round trip\<close>

lemma trailing_facts:
  "example_loads (body_text (post trailing_text)) =
     Inr (JObject [(''long_url'', JString ''https://example.com/page '')])"
  "strip ''https://example.com/page '' = ''https://example.com/page''"
  "startswith_http ''https://example.com/page ''"
  "strip ''abcdefgh'' = ''abcdefgh''"
  by code_simp+

lemma trailing_create:
  "create_lambda_handler example_loads example_environ (post trailing_text) example_world =
     (Inr (response 201
        [(''short_url'', ''https://api.example.com/prod/abcdefgh''),
         (''short_code'', ''abcdefgh''),
         (''long_url'', ''https://example.com/page''),
         (''expires_in'', ''90 days'')]),
      ((retry_world ''https://example.com/page'' ^^ Suc 0) example_world)
        \<lparr>table := (table example_world)(''abcdefgh'' \<mapsto>
           \<lparr>short_code = ''abcdefgh'', long_url = ''https://example.com/page'',
            created_at = 1700000000, expires_at = 1707776000\<rparr>)\<rparr>)"
proof -
  have "\<forall>i<0. rejected example_world i" by simp
  moreover have "faults example_world (length (calls example_world) + 0) = None"
    by simp
  moreover have "table example_world (candidate example_world 0) = None"
    by simp
  ultimately show ?thesis
    using create_accepted [where json_loads = example_loads and ev = "post trailing_text"
        and kv = "[(''long_url'', JString ''https://example.com/page '')]"
        and raw = "''https://example.com/page ''" and environ = example_environ
        and w = example_world and k = 0 and b = "''https://api.example.com/prod/''"]
      trailing_facts(1,2) example_request(4) example_base
    by (simp add: example_candidates example_rstrip)
qed

lemma example_redirect:
  "redirect_lambda_handler (get ''abcdefgh'')
     (((retry_world ''https://example.com/page'' ^^ Suc 0) example_world)
        \<lparr>table := (table example_world)(''abcdefgh'' \<mapsto>
           \<lparr>short_code = ''abcdefgh'', long_url = ''https://example.com/page'',
            created_at = 1700000000, expires_at = 1707776000\<rparr>)\<rparr>) =
   (Inr \<lparr>statusCode = 301,
         headers = [(''Location'', ''https://example.com/page''),
                    (''Access-Control-Allow-Origin'', ''*'')],
         body = Text ''''\<rparr>,
    (((retry_world ''https://example.com/page'' ^^ Suc 0) example_world)
        \<lparr>table := (table example_world)(''abcdefgh'' \<mapsto>
           \<lparr>short_code = ''abcdefgh'', long_url = ''https://example.com/page'',
            created_at = 1700000000, expires_at = 1707776000\<rparr>)\<rparr>)
      \<lparr>calls := calls (((retry_world ''https://example.com/page'' ^^ Suc 0) example_world)
        \<lparr>table := (table example_world)(''abcdefgh'' \<mapsto>
           \<lparr>short_code = ''abcdefgh'', long_url = ''https://example.com/page'',
            created_at = 1700000000, expires_at = 1707776000\<rparr>)\<rparr>) @ [GetItem ''abcdefgh'']\<rparr>)"
  using redirect_lookup [where ev = "get ''abcdefgh''" and p = "[''short_code'' \<mapsto> ''abcdefgh'']"
      and s = "''abcdefgh''"
      and w = "((retry_world ''https://example.com/page'' ^^ Suc 0) example_world)
        \<lparr>table := (table example_world)(''abcdefgh'' \<mapsto>
           \<lparr>short_code = ''abcdefgh'', long_url = ''https://example.com/page'',
            created_at = 1700000000, expires_at = 1707776000\<rparr>)\<rparr>"]
  by (simp add: get_def trailing_facts(4))

text \<open>
  Claim C2, as stated: the \<open>Location\<close> of the redirect equals the \<open>long_url\<close> that was
  submitted, for every valid \<open>long_url\<close>. It fails on a valid \<open>long_url\<close> with trailing
  whitespace: \<open>"https://example.com/page "\<close> starts with \<open>https://\<close> and is accepted, but
  what is stored, and what the redirect answers, is the value without the space.
\<close>

theorem create_then_redirect_counterexample:
  "example_loads (body_text (post trailing_text)) =
     Inr (JObject [(''long_url'', JString ''https://example.com/page '')])
   \<and> startswith_http ''https://example.com/page ''
   \<and> fst (create_lambda_handler example_loads example_environ (post trailing_text) example_world) =
       Inr (response 201
         [(''short_url'', ''https://api.example.com/prod/abcdefgh''),
          (''short_code'', ''abcdefgh''),
          (''long_url'', ''https://example.com/page''),
          (''expires_in'', ''90 days'')])
   \<and> fst (redirect_lambda_handler (get ''abcdefgh'')
         (snd (create_lambda_handler example_loads example_environ (post trailing_text)
            example_world))) =
       Inr \<lparr>statusCode = 301,
            headers = [(''Location'', ''https://example.com/page''),
                       (''Access-Control-Allow-Origin'', ''*'')],
            body = Text ''''\<rparr>
   \<and> ''https://example.com/page'' \<noteq> ''https://example.com/page ''"
proof -
  have created: "fst (create_lambda_handler example_loads example_environ (post trailing_text)
      example_world) =
       Inr (response 201
         [(''short_url'', ''https://api.example.com/prod/abcdefgh''),
          (''short_code'', ''abcdefgh''),
          (''long_url'', ''https://example.com/page''),
          (''expires_in'', ''90 days'')])"
    by (simp only: trailing_create fst_conv)
  have redirected: "fst (redirect_lambda_handler (get ''abcdefgh'')
         (snd (create_lambda_handler example_loads example_environ (post trailing_text)
            example_world))) =
       Inr \<lparr>statusCode = 301,
            headers = [(''Location'', ''https://example.com/page''),
                       (''Access-Control-Allow-Origin'', ''*'')],
            body = Text ''''\<rparr>"
    by (simp only: trailing_create snd_conv example_redirect fst_conv)
  have "''https://example.com/page'' \<noteq> ''https://example.com/page ''" by simp
  with trailing_facts(1,3) created redirected show ?thesis by (intro conjI)
qed

text \<open>
  Claim C2, amended. When a create request whose body decodes to an object with the
  string \<open>long_url\<close> returns 201, the redirect handler, invoked on the returned
  \<open>short_code\<close> in any world that still holds the record the create call stored (the
  world it left, for one) and whose store answers the lookup, returns 301 with an empty
  body and a \<open>Location\<close> header equal to the submitted \<open>long_url\<close> with the whitespace
  around it stripped. That is the submitted \<open>long_url\<close> itself when it neither starts
  nor ends with whitespace, as \<open>https://example.com/page\<close>.
\<close>

theorem create_then_redirect:
  assumes "json_loads (body_text ev) = Inr (JObject kv)"
    and "map_of kv ''long_url'' = Some (JString raw)"
    and "fst (create_lambda_handler json_loads environ ev w) = Inr r"
    and "statusCode r = 201"
  shows "\<exists>code u.
           body r = JsonDumps [(''short_url'', u), (''short_code'', code),
                               (''long_url'', strip raw), (''expires_in'', ''90 days'')]
           \<and> (\<forall>ev2 p w2.
                 pathParameters ev2 = Some p \<and> p ''short_code'' = Some code
                 \<and> table w2 code = table (snd (create_lambda_handler json_loads environ ev w)) code
                 \<and> faults w2 (length (calls w2)) = None \<longrightarrow>
                 fst (redirect_lambda_handler ev2 w2) =
                   Inr \<lparr>statusCode = 301,
                        headers = [(''Location'', strip raw),
                                   (''Access-Control-Allow-Origin'', ''*'')],
                        body = Text ''''\<rparr>)
           \<and> (raw \<noteq> [] \<and> \<not> isspace (hd raw) \<and> \<not> isspace (last raw) \<longrightarrow> strip raw = raw)"
proof -
  from create_success [OF assms(3,4)] obtain kv' raw' k b
    where req: "json_loads (body_text ev) = Inr (JObject kv')"
      "map_of kv' ''long_url'' = Some (JString raw')"
      and r: "r = response 201
               [(''short_url'', rstrip_slash b @ ''/'' @ candidate w k),
                (''short_code'', candidate w k),
                (''long_url'', strip raw'),
                (''expires_in'', ''90 days'')]"
      and w': "snd (create_lambda_handler json_loads environ ev w) =
             ((retry_world (strip raw') ^^ Suc k) w)
               \<lparr>table := (table w)(candidate w k \<mapsto>
                  \<lparr>short_code = candidate w k, long_url = strip raw',
                   created_at = clock w (reads w + 2 * k),
                   expires_at = clock w (reads w + 2 * k + 1) + 60 * 60 * 24 * 90\<rparr>)\<rparr>"
    by blast
  from req assms(1,2) have same: "raw' = raw" by simp
  let ?code = "candidate w k"
  let ?it = "\<lparr>short_code = ?code, long_url = strip raw,
               created_at = clock w (reads w + 2 * k),
               expires_at = clock w (reads w + 2 * k + 1) + 60 * 60 * 24 * 90\<rparr>"
  have body: "body r = JsonDumps [(''short_url'', rstrip_slash b @ ''/'' @ ?code),
                                  (''short_code'', ?code),
                                  (''long_url'', strip raw), (''expires_in'', ''90 days'')]"
    by (simp add: r same)
  have stored: "table (snd (create_lambda_handler json_loads environ ev w)) ?code = Some ?it"
    by (simp add: w' same)
  have redirect: "fst (redirect_lambda_handler ev2 w2) =
                   Inr \<lparr>statusCode = 301,
                        headers = [(''Location'', strip raw),
                                   (''Access-Control-Allow-Origin'', ''*'')],
                        body = Text ''''\<rparr>"
    if "pathParameters ev2 = Some p" "p ''short_code'' = Some ?code"
      "table w2 ?code = table (snd (create_lambda_handler json_loads environ ev w)) ?code"
      "faults w2 (length (calls w2)) = None" for ev2 p w2
  proof -
    have ne: "strip ?code \<noteq> []"
      using candidate_shape [of w k] by (auto simp: candidate_strip CODE_LENGTH_def)
    have "table w2 (strip ?code) = Some ?it"
      using that(3) stored by (simp add: candidate_strip)
    then show ?thesis
      using redirect_lookup [OF that(1,2) ne that(4)] by simp
  qed
  have "raw \<noteq> [] \<and> \<not> isspace (hd raw) \<and> \<not> isspace (last raw) \<longrightarrow> strip raw = raw"
    using strip_id [of raw] by blast
  with body redirect show ?thesis by blast
qed

theorem create_then_redirect_witness:
  "example_loads (body_text example_event) =
     Inr (JObject [(''long_url'', JString ''https://example.com/page'')])
   \<and> fst (create_lambda_handler example_loads example_environ example_event example_world) =
       Inr (response 201
         [(''short_url'', ''https://api.example.com/prod/abcdefgh''),
          (''short_code'', ''abcdefgh''),
          (''long_url'', ''https://example.com/page''),
          (''expires_in'', ''90 days'')])
   \<and> strip ''https://example.com/page'' = ''https://example.com/page''
   \<and> fst (redirect_lambda_handler (get ''abcdefgh'')
         (snd (create_lambda_handler example_loads example_environ example_event example_world))) =
       Inr \<lparr>statusCode = 301,
            headers = [(''Location'', ''https://example.com/page''),
                       (''Access-Control-Allow-Origin'', ''*'')],
            body = Text ''''\<rparr>"
proof -
  let ?r = "response 201
         [(''short_url'', ''https://api.example.com/prod/abcdefgh''),
          (''short_code'', ''abcdefgh''),
          (''long_url'', ''https://example.com/page''),
          (''expires_in'', ''90 days'')]"
  let ?w1 = "snd (create_lambda_handler example_loads example_environ example_event example_world)"
  have created: "fst (create_lambda_handler example_loads example_environ example_event
      example_world) = Inr ?r"
    by (simp add: example_create)
  from create_then_redirect [where json_loads = example_loads and ev = example_event
      and kv = "[(''long_url'', JString ''https://example.com/page'')]"
      and raw = "''https://example.com/page''" and environ = example_environ
      and w = example_world and r = ?r, OF example_request(1,2) created]
  obtain code u where
    body: "body ?r = JsonDumps [(''short_url'', u), (''short_code'', code),
              (''long_url'', strip ''https://example.com/page''), (''expires_in'', ''90 days'')]"
    and redirect: "\<And>ev2 p w2. pathParameters ev2 = Some p \<Longrightarrow> p ''short_code'' = Some code \<Longrightarrow>
        table w2 code = table ?w1 code \<Longrightarrow> faults w2 (length (calls w2)) = None \<Longrightarrow>
        fst (redirect_lambda_handler ev2 w2) =
          Inr \<lparr>statusCode = 301,
               headers = [(''Location'', strip ''https://example.com/page''),
                          (''Access-Control-Allow-Origin'', ''*'')],
               body = Text ''''\<rparr>"
    by auto
  from body have code: "code = ''abcdefgh''" by simp
  have "fst (redirect_lambda_handler (get ''abcdefgh'') ?w1) =
          Inr \<lparr>statusCode = 301,
               headers = [(''Location'', strip ''https://example.com/page''),
                          (''Access-Control-Allow-Origin'', ''*'')],
               body = Text ''''\<rparr>"
    by (rule redirect [where p = "[''short_code'' \<mapsto> ''abcdefgh'']"])
      (simp_all add: get_def code example_create)
  with example_request(1,3) created show ?thesis by simp
qed

subsection \<open>Claims about the timestamps\<close>

text \<open>The record of a 201: \<open>created_at\<close> is one reading of the clock, \<open>expires_at\<close> is
  the next reading plus 90 days. The two differ by 90 days exactly when the two readings
  fall in the same second.\<close>

lemma stored_record:
  assumes "fst (create_lambda_handler json_loads environ ev w) = Inr r" and "statusCode r = 201"
  shows "\<exists>k it. k < 5
           \<and> table (snd (create_lambda_handler json_loads environ ev w)) (candidate w k) = Some it
           \<and> created_at it = clock w (reads w + 2 * k)
           \<and> expires_at it = clock w (reads w + 2 * k + 1) + 7776000
           \<and> (expires_at it = created_at it + 7776000 \<longleftrightarrow>
                clock w (reads w + 2 * k + 1) = clock w (reads w + 2 * k))"
proof -
  from create_success [OF assms] obtain raw k
    where k: "k < 5"
      and w': "snd (create_lambda_handler json_loads environ ev w) =
             ((retry_world (strip raw) ^^ Suc k) w)
               \<lparr>table := (table w)(candidate w k \<mapsto>
                  \<lparr>short_code = candidate w k, long_url = strip raw,
                   created_at = clock w (reads w + 2 * k),
                   expires_at = clock w (reads w + 2 * k + 1) + 60 * 60 * 24 * 90\<rparr>)\<rparr>"
    by blast
  let ?it = "\<lparr>short_code = candidate w k, long_url = strip raw,
                   created_at = clock w (reads w + 2 * k),
                   expires_at = clock w (reads w + 2 * k + 1) + 7776000\<rparr>"
  have "table (snd (create_lambda_handler json_loads environ ev w)) (candidate w k) = Some ?it"
    by (simp add: w')
  moreover have "created_at ?it = clock w (reads w + 2 * k)"
    "expires_at ?it = clock w (reads w + 2 * k + 1) + 7776000"
    "expires_at ?it = created_at ?it + 7776000 \<longleftrightarrow>
       clock w (reads w + 2 * k + 1) = clock w (reads w + 2 * k)"
    by simp_all
  ultimately show ?thesis using k by blast
qed

text \<open>
  Claim C8: every record a successful create writes has
  \<open>expires_at = created_at + 7776000\<close>. The code reads the clock once for \<open>created_at\<close>
  and once more for \<open>expires_at\<close>; when a second boundary is passed between the two
  readings, the record it writes has \<open>expires_at = created_at + 7776001\<close>.
\<close>

theorem expires_at_offset_fails:
  "fst (create_lambda_handler example_loads example_environ example_event ticking_world) =
     Inr (response 201
       [(''short_url'', ''https://api.example.com/prod/abcdefgh''),
        (''short_code'', ''abcdefgh''),
        (''long_url'', ''https://example.com/page''),
        (''expires_in'', ''90 days'')])
   \<and> table (snd (create_lambda_handler example_loads example_environ example_event
        ticking_world)) ''abcdefgh'' =
       Some \<lparr>short_code = ''abcdefgh'', long_url = ''https://example.com/page'',
             created_at = 1699999999, expires_at = 1707776000\<rparr>
   \<and> (1707776000 :: int) \<noteq> 1699999999 + 7776000"
proof -
  have c: "candidate ticking_world i = candidate example_world i" for i
    unfolding candidate_def generate_short_code_def ticking_world_def
    by (rule choices_cong) simp_all
  have t: "table ticking_world = Map.empty" "faults ticking_world n = None"
    "calls ticking_world = []" "reads ticking_world = 0"
    "clock ticking_world 0 = 1699999999" "clock ticking_world (Suc 0) = 1700000000" for n
    by (simp_all add: ticking_world_def example_world_def)
  have "\<forall>i<0. rejected ticking_world i" by simp
  moreover have "faults ticking_world (length (calls ticking_world) + 0) = None"
    by (simp add: t)
  moreover have "table ticking_world (candidate ticking_world 0) = None"
    by (simp add: t)
  ultimately have "create_lambda_handler example_loads example_environ example_event ticking_world =
     (Inr (response 201
        [(''short_url'', ''https://api.example.com/prod/abcdefgh''),
         (''short_code'', ''abcdefgh''),
         (''long_url'', ''https://example.com/page''),
         (''expires_in'', ''90 days'')]),
      ((retry_world ''https://example.com/page'' ^^ Suc 0) ticking_world)
        \<lparr>table := (table ticking_world)(''abcdefgh'' \<mapsto>
           \<lparr>short_code = ''abcdefgh'', long_url = ''https://example.com/page'',
            created_at = 1699999999, expires_at = 1707776000\<rparr>)\<rparr>)"
    using create_accepted [where json_loads = example_loads and ev = example_event
        and kv = "[(''long_url'', JString ''https://example.com/page'')]"
        and raw = "''https://example.com/page''" and environ = example_environ
        and w = ticking_world and k = 0 and b = "''https://api.example.com/prod/''"]
      example_request example_base
    by (simp add: c t example_candidates example_rstrip)
  then show ?thesis by simp
qed

end
